theory Spec2Isabelle
  imports Complex_Main
begin

section \<open>Naive datetimes\<close>

text \<open>
  chronocalc.py works with naive \<^verbatim>\<open>datetime\<close> values only: the two year bounds built by
  \<^verbatim>\<open>datetime(year, 1, 1, 0, 00, 00)\<close> and \<^verbatim>\<open>datetime(year, 12, 31, 23, 59, 00)\<close>, the
  solstice instant, and the instants that \<^verbatim>\<open>rrule\<close> yields. A naive datetime is a point of
  the proleptic Gregorian calendar without leap seconds, so it is modelled as the number of
  seconds since midnight of day 0 of that calendar. The only value with a sub-second part is
  the raw solstice, and line 88 clears its minute, second and microsecond before any use;
  the model therefore keeps seconds. The day count follows the arithmetic of Python's
  \<^verbatim>\<open>_ymd2ord\<close>.
\<close>

type_synonym datetime = int

definition is_leap :: "int \<Rightarrow> bool" where
  "is_leap year \<longleftrightarrow> year mod 4 = 0 \<and> (year mod 100 \<noteq> 0 \<or> year mod 400 = 0)"

definition days_before_year :: "int \<Rightarrow> int" where
  "days_before_year year =
     (year - 1) * 365 + (year - 1) div 4 - (year - 1) div 100 + (year - 1) div 400"

definition days_before_month :: "int \<Rightarrow> nat \<Rightarrow> int" where
  "days_before_month year month =
     [0, 31, 59, 90, 120, 151, 181, 212, 243, 273, 304, 334] ! (month - 1)
       + (if 2 < month \<and> is_leap year then 1 else 0)"

definition ymd2ord :: "int \<Rightarrow> nat \<Rightarrow> nat \<Rightarrow> int" where
  "ymd2ord year month day = days_before_year year + days_before_month year month + int day"

definition mk_datetime :: "int \<Rightarrow> nat \<Rightarrow> nat \<Rightarrow> nat \<Rightarrow> nat \<Rightarrow> nat \<Rightarrow> datetime" where
  "mk_datetime year month day hour minute second =
     ymd2ord year month day * 86400 + int hour * 3600 + int minute * 60 + int second"

text \<open>\<^verbatim>\<open>datetime(...)\<close> raises ValueError unless MINYEAR \<le> year \<le> MAXYEAR.\<close>

definition valid_year :: "int \<Rightarrow> bool" where
  "valid_year year \<longleftrightarrow> 1 \<le> year \<and> year \<le> 9999"

text \<open>\<^verbatim>\<open>d.replace(minute=0, second=0, microsecond=0)\<close>: days and hours start on multiples
  of 3600 seconds, so clearing the fields below the hour is rounding down to one.\<close>

definition replace_minute_second_0 :: "datetime \<Rightarrow> datetime" where
  "replace_minute_second_0 d = d - d mod 3600"

text \<open>
  \<^verbatim>\<open>rrule.rrule(rrule.MINUTELY, interval=i, dtstart=s, until=u)\<close> (dateutil) yields
  \<^verbatim>\<open>s\<close>, then steps by \<^verbatim>\<open>i\<close> minutes while the instant is not after \<^verbatim>\<open>u\<close>. The program
  supplies the interval 15 or 2 only; the model gives no recurrence for interval 0, which
  dateutil is never asked for here.
\<close>

function rrule_minutely :: "nat \<Rightarrow> datetime \<Rightarrow> datetime \<Rightarrow> datetime list" where
  "rrule_minutely interval dtstart until =
     (if interval = 0 \<or> until < dtstart then []
      else dtstart # rrule_minutely interval (dtstart + 60 * int interval) until)"
  by pat_completeness auto
termination
  by (relation "measure (\<lambda>(i, s, u). nat (u - s + 1))") auto

declare rrule_minutely.simps [simp del]

section \<open>The ephemeris boundary\<close>

text \<open>
  \<^verbatim>\<open>ephem.Observer\<close> with the attributes the program sets, and the attributes of a computed
  body that it reads (angles in radians, \<^verbatim>\<open>moon_phase\<close> a fraction). \<^verbatim>\<open>lon\<close> and \<^verbatim>\<open>lat\<close>
  are the command line's strings; the observer's fields carry the prefix \<open>obs_\<close>. The
  collaborators (pyephem, timezonefinder, the elevation service) are the fields of
  \<open>world\<close>; the spec takes the ephemeris to be a pure function of observer and instant.
\<close>

record observer =
  obs_lon :: string
  obs_lat :: string
  obs_elevation :: real
  obs_date :: datetime

record body =
  alt :: real
  az :: real
  moon_phase :: real

record world =
  ephem_Sun :: "observer \<Rightarrow> body"
  ephem_Moon :: "observer \<Rightarrow> body"
  ephem_next_solstice :: "datetime \<Rightarrow> datetime"
  tf_timezone_at :: "string \<Rightarrow> string \<Rightarrow> string"
  open_elevation :: "string \<Rightarrow> string \<Rightarrow> real"

definition degree :: real where
  "degree = pi / 180"

text \<open>Python's \<^verbatim>\<open>round(x, ndigits)\<close>, ties to even, on the reals.\<close>

definition py_round :: "real \<Rightarrow> nat \<Rightarrow> real" where
  "py_round x ndigits =
     (let y = x * 10 ^ ndigits; f = \<lfloor>y\<rfloor>
      in (if y - of_int f < 1 / 2 then of_int f
          else if 1 / 2 < y - of_int f then of_int f + 1
          else if even f then of_int f else of_int f + 1) / 10 ^ ndigits)"

definition get_timezone :: "world \<Rightarrow> string \<Rightarrow> string \<Rightarrow> string" where
  "get_timezone w lon lat = tf_timezone_at w lon lat"

definition get_elevation :: "world \<Rightarrow> string \<Rightarrow> string \<Rightarrow> real" where
  "get_elevation w lon lat = open_elevation w lat lon"

section \<open>Output and termination of a run\<close>

text \<open>
  A table cell is an instant shown in a timezone
  (\<^verbatim>\<open>arrow.get(t).to('UTC').to(local_timezone)\<close>), a number, or the text of a number
  followed by \<^verbatim>\<open>%\<close>. A run ends by returning after its prints (exit status 0), by
  \<^verbatim>\<open>sys.exit(message)\<close> (the message goes to stderr, exit status 1), or by an uncaught
  exception (exit status 1).
\<close>

datatype cell = Moment datetime string | Number real | Percent real

datatype printed = Line string | Table "string list" "cell list list"

datatype exn = IndexError | ValueError

datatype outcome = Completed "printed list" | SysExit string | Raised exn

fun exit_status :: "outcome \<Rightarrow> nat" where
  "exit_status (Completed out) = 0"
| "exit_status (SysExit msg) = 1"
| "exit_status (Raised e) = 1"

definition no_solution :: string where
  "no_solution = ''No possible solution found. Please check the given parameters.''"

section \<open>Moon mode\<close>

text \<open>The body of the loop of \<^verbatim>\<open>get_moon_position\<close> (lines 49-53) on the pair
  \<^verbatim>\<open>(tab, empty_table)\<close>.\<close>

definition moon_body ::
  "(observer \<Rightarrow> body) \<Rightarrow> string \<Rightarrow> string \<Rightarrow> real \<Rightarrow> string \<Rightarrow> real \<Rightarrow> real \<Rightarrow>
   cell list list \<times> bool \<Rightarrow> datetime \<Rightarrow> cell list list \<times> bool" where
  "moon_body moon lon lat elevation local_timezone searchalt searchaz st timewindow =
     (let pos = moon \<lparr>obs_lon = lon, obs_lat = lat, obs_elevation = elevation, obs_date = timewindow\<rparr>
      in if \<bar>alt pos / degree - searchalt\<bar> < 2 \<and> \<bar>az pos / degree - searchaz\<bar> < 2
         then (fst st @ [[Moment timewindow local_timezone,
                          Number (py_round (alt pos / degree) 2),
                          Number (py_round (az pos / degree) 2),
                          Percent (py_round (moon_phase pos * 100) 1)]], False)
         else st)"

definition moon_table ::
  "world \<Rightarrow> int \<Rightarrow> string \<Rightarrow> string \<Rightarrow> real \<Rightarrow> real \<Rightarrow> real \<Rightarrow> cell list list \<times> bool" where
  "moon_table w year lon lat elevation searchalt searchaz =
     (let local_timezone = get_timezone w lon lat;
          startmoment = mk_datetime year 1 1 0 0 0;
          endmoment = mk_datetime year 12 31 23 59 0
      in foldl (moon_body (ephem_Moon w) lon lat elevation local_timezone searchalt searchaz)
           ([], True) (rrule_minutely 15 startmoment endmoment))"

definition get_moon_position ::
  "world \<Rightarrow> int \<Rightarrow> string \<Rightarrow> string \<Rightarrow> real \<Rightarrow> real \<Rightarrow> real \<Rightarrow> outcome" where
  "get_moon_position w year lon lat elevation searchalt searchaz =
     (if \<not> valid_year year then Raised ValueError
      else let (tab, empty_table) = moon_table w year lon lat elevation searchalt searchaz
           in if empty_table then Completed [Line no_solution]
              else Completed
                [Line ''\<newline>On the following dates and times the moon is closest to the given parameters:\<newline>'',
                 Table [''Date and time'', ''Altitude'', ''Azimuth'', ''Illumination''] tab])"

section \<open>Sun mode\<close>

text \<open>An entry of \<^verbatim>\<open>results\<close>: rounded altitude, rounded azimuth, instant, \<^verbatim>\<open>closeby\<close>.\<close>

type_synonym sun_result = "real \<times> real \<times> datetime \<times> real"

definition closeby_of :: "sun_result \<Rightarrow> real" where
  "closeby_of r = snd (snd (snd r))"

definition instant_of :: "sun_result \<Rightarrow> datetime" where
  "instant_of r = fst (snd (snd r))"

text \<open>The body of the loop of \<^verbatim>\<open>calculate_sun\<close> (lines 73-77).\<close>

definition sun_body ::
  "(observer \<Rightarrow> body) \<Rightarrow> string \<Rightarrow> string \<Rightarrow> real \<Rightarrow> real \<Rightarrow> real \<Rightarrow>
   sun_result list \<Rightarrow> datetime \<Rightarrow> sun_result list" where
  "sun_body sun lon lat elevation searchalt searchaz results timewindow =
     (let pos = sun \<lparr>obs_lon = lon, obs_lat = lat, obs_elevation = elevation, obs_date = timewindow\<rparr>
      in if \<bar>alt pos / degree - searchalt\<bar> < 3 \<and> \<bar>az pos / degree - searchaz\<bar> < 3
         then let closeby = \<bar>alt pos / degree - searchalt\<bar> * \<bar>az pos / degree - searchaz\<bar>
              in results @ [(py_round (alt pos / degree) 2, py_round (az pos / degree) 2,
                             timewindow, closeby)]
         else results)"

text \<open>\<^verbatim>\<open>results.sort(key=...)\<close> is a stable sort, as \<open>sort_key\<close> is; the list is sorted in
  place and returned, so the caller's \<^verbatim>\<open>results1\<close> is the returned value.\<close>

definition calculate_sun ::
  "world \<Rightarrow> sun_result list \<Rightarrow> string \<Rightarrow> string \<Rightarrow> real \<Rightarrow> real \<Rightarrow> real \<Rightarrow>
   datetime \<Rightarrow> datetime \<Rightarrow> nat \<Rightarrow> sun_result list" where
  "calculate_sun w results lon lat elevation searchalt searchaz calc_start calc_end accuracy =
     sort_key closeby_of
       (foldl (sun_body (ephem_Sun w) lon lat elevation searchalt searchaz)
          results (rrule_minutely accuracy calc_start calc_end))"

text \<open>Lines 86-91 of \<^verbatim>\<open>get_sun_position\<close>.\<close>

definition date_solstice :: "world \<Rightarrow> int \<Rightarrow> datetime" where
  "date_solstice w year =
     replace_minute_second_0 (ephem_next_solstice w (mk_datetime year 1 1 0 0 0))"

definition date_start :: "int \<Rightarrow> datetime" where
  "date_start year = mk_datetime year 1 1 0 0 0"

definition date_end :: "int \<Rightarrow> datetime" where
  "date_end year = mk_datetime year 12 31 23 59 0"

text \<open>Lines 93-97: the two calls of \<^verbatim>\<open>calculate_sun\<close>, each with its window.\<close>

definition sun_windows :: "world \<Rightarrow> int \<Rightarrow> (datetime \<times> datetime) \<times> (datetime \<times> datetime)" where
  "sun_windows w year =
     ((date_start year, date_solstice w year), (date_solstice w year, date_end year))"

definition results1 ::
  "world \<Rightarrow> int \<Rightarrow> string \<Rightarrow> string \<Rightarrow> real \<Rightarrow> real \<Rightarrow> real \<Rightarrow> nat \<Rightarrow> sun_result list" where
  "results1 w year lon lat elevation searchalt searchaz accuracy =
     calculate_sun w [] lon lat elevation searchalt searchaz
       (fst (fst (sun_windows w year))) (snd (fst (sun_windows w year))) accuracy"

definition results2 ::
  "world \<Rightarrow> int \<Rightarrow> string \<Rightarrow> string \<Rightarrow> real \<Rightarrow> real \<Rightarrow> real \<Rightarrow> nat \<Rightarrow> sun_result list" where
  "results2 w year lon lat elevation searchalt searchaz accuracy =
     calculate_sun w [] lon lat elevation searchalt searchaz
       (fst (snd (sun_windows w year))) (snd (snd (sun_windows w year))) accuracy"

text \<open>A row of the Sun table from an entry of \<^verbatim>\<open>results\<close> (lines 106 and 107).\<close>

definition sun_row :: "string \<Rightarrow> sun_result \<Rightarrow> cell list" where
  "sun_row local_timezone r =
     [Moment (instant_of r) local_timezone, Number (fst r), Number (fst (snd r))]"

text \<open>\<^verbatim>\<open>get_sun_position\<close>: both windows are searched, then the length test of line 99, then
  \<^verbatim>\<open>results1[0]\<close> and \<^verbatim>\<open>results2[0]\<close>, each an IndexError on an empty list.\<close>

definition get_sun_position ::
  "world \<Rightarrow> int \<Rightarrow> string \<Rightarrow> string \<Rightarrow> real \<Rightarrow> real \<Rightarrow> real \<Rightarrow> nat \<Rightarrow> outcome" where
  "get_sun_position w year lon lat elevation searchalt searchaz accuracy =
     (if \<not> valid_year year then Raised ValueError
      else let local_timezone = get_timezone w lon lat;
               r1 = results1 w year lon lat elevation searchalt searchaz accuracy;
               r2 = results2 w year lon lat elevation searchalt searchaz accuracy
           in if length r1 < 2 then SysExit no_solution
              else case r1 of [] \<Rightarrow> Raised IndexError
                   | a # _ \<Rightarrow>
                     (case r2 of [] \<Rightarrow> Raised IndexError
                      | b # _ \<Rightarrow> Completed
                          [Line ''\<newline>On the following dates and times the sun is closest to the given parameters:\<newline>'',
                           Table [''Date and time'', ''Altitude'', ''Azimuth'']
                             [sun_row local_timezone a, sun_row local_timezone b]]))"

section \<open>The command line\<close>

text \<open>The parsed arguments; \<^verbatim>\<open>--accurate\<close> stores the constant 2 over the default 15.\<close>

record args =
  arg_year :: int
  arg_lat :: string
  arg_lon :: string
  arg_alt :: real
  arg_az :: real
  arg_moon :: bool
  arg_accuracy :: nat

definition main :: "world \<Rightarrow> args \<Rightarrow> outcome" where
  "main w a =
     (let elevation = get_elevation w (arg_lon a) (arg_lat a)
      in if arg_moon a
         then get_moon_position w (arg_year a) (arg_lon a) (arg_lat a) elevation
                (arg_alt a) (arg_az a)
         else get_sun_position w (arg_year a) (arg_lon a) (arg_lat a) elevation
                (arg_alt a) (arg_az a) (arg_accuracy a))"

section \<open>The same loops over an ephemeris with hidden state\<close>

text \<open>
  \<^verbatim>\<open>pos.compute(location)\<close> is a method call on a mutable object. To say how often and in
  which order the loops ask the ephemeris, and what a run owes to anything but the answers,
  the loops are given a second time over an oracle that takes and returns a hidden state.
\<close>

definition sun_body_st ::
  "('s \<Rightarrow> observer \<Rightarrow> body \<times> 's) \<Rightarrow> string \<Rightarrow> string \<Rightarrow> real \<Rightarrow> real \<Rightarrow> real \<Rightarrow>
   sun_result list \<times> 's \<Rightarrow> datetime \<Rightarrow> sun_result list \<times> 's" where
  "sun_body_st compute lon lat elevation searchalt searchaz st timewindow =
     (let (pos, s') = compute (snd st)
            \<lparr>obs_lon = lon, obs_lat = lat, obs_elevation = elevation, obs_date = timewindow\<rparr>
      in (if \<bar>alt pos / degree - searchalt\<bar> < 3 \<and> \<bar>az pos / degree - searchaz\<bar> < 3
          then let closeby = \<bar>alt pos / degree - searchalt\<bar> * \<bar>az pos / degree - searchaz\<bar>
               in fst st @ [(py_round (alt pos / degree) 2, py_round (az pos / degree) 2,
                             timewindow, closeby)]
          else fst st, s'))"

definition calculate_sun_st ::
  "('s \<Rightarrow> observer \<Rightarrow> body \<times> 's) \<Rightarrow> 's \<Rightarrow> sun_result list \<Rightarrow> string \<Rightarrow> string \<Rightarrow> real \<Rightarrow>
   real \<Rightarrow> real \<Rightarrow> datetime \<Rightarrow> datetime \<Rightarrow> nat \<Rightarrow> sun_result list \<times> 's" where
  "calculate_sun_st compute s0 results lon lat elevation searchalt searchaz
       calc_start calc_end accuracy =
     (let (rs, s') = foldl (sun_body_st compute lon lat elevation searchalt searchaz)
                       (results, s0) (rrule_minutely accuracy calc_start calc_end)
      in (sort_key closeby_of rs, s'))"

definition moon_body_st ::
  "('s \<Rightarrow> observer \<Rightarrow> body \<times> 's) \<Rightarrow> string \<Rightarrow> string \<Rightarrow> real \<Rightarrow> string \<Rightarrow> real \<Rightarrow> real \<Rightarrow>
   (cell list list \<times> bool) \<times> 's \<Rightarrow> datetime \<Rightarrow> (cell list list \<times> bool) \<times> 's" where
  "moon_body_st compute lon lat elevation local_timezone searchalt searchaz st timewindow =
     (let (pos, s') = compute (snd st)
            \<lparr>obs_lon = lon, obs_lat = lat, obs_elevation = elevation, obs_date = timewindow\<rparr>
      in (if \<bar>alt pos / degree - searchalt\<bar> < 2 \<and> \<bar>az pos / degree - searchaz\<bar> < 2
          then (fst (fst st) @ [[Moment timewindow local_timezone,
                                 Number (py_round (alt pos / degree) 2),
                                 Number (py_round (az pos / degree) 2),
                                 Percent (py_round (moon_phase pos * 100) 1)]], False)
          else fst st, s'))"

definition moon_table_st ::
  "('s \<Rightarrow> observer \<Rightarrow> body \<times> 's) \<Rightarrow> 's \<Rightarrow> string \<Rightarrow> int \<Rightarrow> string \<Rightarrow> string \<Rightarrow> real \<Rightarrow>
   real \<Rightarrow> real \<Rightarrow> (cell list list \<times> bool) \<times> 's" where
  "moon_table_st compute s0 local_timezone year lon lat elevation searchalt searchaz =
     (let startmoment = mk_datetime year 1 1 0 0 0;
          endmoment = mk_datetime year 12 31 23 59 0
      in foldl (moon_body_st compute lon lat elevation local_timezone searchalt searchaz)
           (([], True), s0) (rrule_minutely 15 startmoment endmoment))"

text \<open>An oracle that answers as \<open>f\<close> does and keeps the list of the observers it was
  asked about.\<close>

definition logging :: "(observer \<Rightarrow> body) \<Rightarrow> observer list \<Rightarrow> observer \<Rightarrow> body \<times> observer list" where
  "logging f asked ob = (f ob, asked @ [ob])"

section \<open>Notions used in the statements\<close>

text \<open>\<^verbatim>\<open>location\<close> after \<^verbatim>\<open>location.date = timewindow\<close>, and \<^verbatim>\<open>pos.alt/degree\<close>,
  \<^verbatim>\<open>pos.az/degree\<close> and \<^verbatim>\<open>pos.moon_phase\<close> after \<^verbatim>\<open>pos.compute(location)\<close>.\<close>

definition observer_at :: "string \<Rightarrow> string \<Rightarrow> real \<Rightarrow> datetime \<Rightarrow> observer" where
  "observer_at lon lat elevation t =
     \<lparr>obs_lon = lon, obs_lat = lat, obs_elevation = elevation, obs_date = t\<rparr>"

definition alt_at :: "(observer \<Rightarrow> body) \<Rightarrow> string \<Rightarrow> string \<Rightarrow> real \<Rightarrow> datetime \<Rightarrow> real" where
  "alt_at orc lon lat elevation t = alt (orc (observer_at lon lat elevation t)) / degree"

definition az_at :: "(observer \<Rightarrow> body) \<Rightarrow> string \<Rightarrow> string \<Rightarrow> real \<Rightarrow> datetime \<Rightarrow> real" where
  "az_at orc lon lat elevation t = az (orc (observer_at lon lat elevation t)) / degree"

definition phase_at :: "(observer \<Rightarrow> body) \<Rightarrow> string \<Rightarrow> string \<Rightarrow> real \<Rightarrow> datetime \<Rightarrow> real" where
  "phase_at orc lon lat elevation t = moon_phase (orc (observer_at lon lat elevation t))"

text \<open>The test of lines 51 and 75 with the bound as a parameter, the product of line 76,
  the tuple of line 77 and the row of line 52.\<close>

definition in_tolerance ::
  "real \<Rightarrow> (observer \<Rightarrow> body) \<Rightarrow> string \<Rightarrow> string \<Rightarrow> real \<Rightarrow> real \<Rightarrow> real \<Rightarrow> datetime \<Rightarrow> bool" where
  "in_tolerance tol orc lon lat elevation searchalt searchaz t \<longleftrightarrow>
     \<bar>alt_at orc lon lat elevation t - searchalt\<bar> < tol \<and>
     \<bar>az_at orc lon lat elevation t - searchaz\<bar> < tol"

definition closeby_at ::
  "(observer \<Rightarrow> body) \<Rightarrow> string \<Rightarrow> string \<Rightarrow> real \<Rightarrow> real \<Rightarrow> real \<Rightarrow> datetime \<Rightarrow> real" where
  "closeby_at orc lon lat elevation searchalt searchaz t =
     \<bar>alt_at orc lon lat elevation t - searchalt\<bar> * \<bar>az_at orc lon lat elevation t - searchaz\<bar>"

definition sun_entry ::
  "(observer \<Rightarrow> body) \<Rightarrow> string \<Rightarrow> string \<Rightarrow> real \<Rightarrow> real \<Rightarrow> real \<Rightarrow> datetime \<Rightarrow> sun_result" where
  "sun_entry orc lon lat elevation searchalt searchaz t =
     (py_round (alt_at orc lon lat elevation t) 2, py_round (az_at orc lon lat elevation t) 2,
      t, closeby_at orc lon lat elevation searchalt searchaz t)"

definition moon_row ::
  "(observer \<Rightarrow> body) \<Rightarrow> string \<Rightarrow> string \<Rightarrow> real \<Rightarrow> string \<Rightarrow> datetime \<Rightarrow> cell list" where
  "moon_row orc lon lat elevation local_timezone t =
     [Moment t local_timezone,
      Number (py_round (alt_at orc lon lat elevation t) 2),
      Number (py_round (az_at orc lon lat elevation t) 2),
      Percent (py_round (phase_at orc lon lat elevation t * 100) 1)]"

text \<open>The number of instants of a window.\<close>

definition ticks :: "nat \<Rightarrow> datetime \<Rightarrow> datetime \<Rightarrow> nat" where
  "ticks i s u = (if u < s then 0 else nat ((u - s) div (60 * int i)) + 1)"

text \<open>Example worlds: a body that stands at \<open>f t\<close> (altitude and azimuth in degrees) at the
  instant \<open>t\<close>, and a fixed solstice.\<close>

definition sky :: "(datetime \<Rightarrow> real \<times> real) \<Rightarrow> observer \<Rightarrow> body" where
  "sky f ob =
     \<lparr>alt = fst (f (obs_date ob)) * degree, az = snd (f (obs_date ob)) * degree,
      moon_phase = 1 / 2\<rparr>"

definition example_world :: "(datetime \<Rightarrow> real \<times> real) \<Rightarrow> datetime \<Rightarrow> world" where
  "example_world f solstice =
     \<lparr>ephem_Sun = sky f, ephem_Moon = sky f, ephem_next_solstice = (\<lambda>d. solstice),
      tf_timezone_at = (\<lambda>lon lat. ''Europe/Amsterdam''), open_elevation = (\<lambda>lat lon. 0)\<rparr>"

text \<open>The June solstice of 2024, 20 June 20:51 UTC.\<close>

definition solstice_2024 :: datetime where
  "solstice_2024 = mk_datetime 2024 6 20 20 51 0"

section \<open>Auxiliary lemmas\<close>

subsection \<open>The instants of a window\<close>

lemma rrule_minutely_Nil: "until < dtstart \<Longrightarrow> rrule_minutely i dtstart until = []"
  by (simp add: rrule_minutely.simps)

lemma rrule_minutely_Cons:
  "0 < i \<Longrightarrow> dtstart \<le> until \<Longrightarrow>
   rrule_minutely i dtstart until = dtstart # rrule_minutely i (dtstart + 60 * int i) until"
  by (subst rrule_minutely.simps) simp

lemma ticks_step:
  assumes "0 < i" "s \<le> u"
  shows "ticks i s u = Suc (ticks i (s + 60 * int i) u)"
proof (cases "u < s + 60 * int i")
  case True
  with assms have "(u - s) div (60 * int i) = 0"
    by (simp add: div_pos_pos_trivial)
  with True assms show ?thesis by (simp add: ticks_def)
next
  case False
  have "u - s = (u - (s + 60 * int i)) + 1 * (60 * int i)" by simp
  then have "(u - s) div (60 * int i) = (u - (s + 60 * int i)) div (60 * int i) + 1"
    using assms(1) div_add_self2 [of "60 * int i" "u - (s + 60 * int i)"] by simp
  moreover have "0 \<le> (u - (s + 60 * int i)) div (60 * int i)"
    using False assms(1) by (simp add: pos_imp_zdiv_nonneg_iff)
  ultimately show ?thesis using False assms by (simp add: ticks_def nat_add_distrib)
qed

lemma rrule_minutely_closed:
  "0 < i \<Longrightarrow>
   rrule_minutely i s u = map (\<lambda>k. s + 60 * int i * int k) [0..<ticks i s u]"
proof (induction i s u rule: rrule_minutely.induct)
  case (1 i s u)
  show ?case
  proof (cases "u < s")
    case True
    then show ?thesis by (simp add: rrule_minutely_Nil ticks_def)
  next
    case False
    then have le: "s \<le> u" by simp
    have ih: "rrule_minutely i (s + 60 * int i) u =
        map (\<lambda>k. s + 60 * int i + 60 * int i * int k) [0..<ticks i (s + 60 * int i) u]"
      using "1.IH" "1.prems" False by simp
    have "map (\<lambda>k. s + 60 * int i * int k) [0..<Suc (ticks i (s + 60 * int i) u)] =
          s # map (\<lambda>k. s + 60 * int i + 60 * int i * int k) [0..<ticks i (s + 60 * int i) u]"
      by (simp add: map_upt_Suc algebra_simps del: upt_Suc)
    then show ?thesis
      using ih ticks_step [OF "1.prems" le] rrule_minutely_Cons [OF "1.prems" le] by simp
  qed
qed

lemma sun_body_eq:
  "sun_body orc lon lat el sa sz rs t =
     (if in_tolerance 3 orc lon lat el sa sz t then rs @ [sun_entry orc lon lat el sa sz t] else rs)"
  by (simp add: sun_body_def in_tolerance_def sun_entry_def closeby_at_def alt_at_def az_at_def observer_at_def Let_def)

lemma foldl_sun_body:
  "foldl (sun_body orc lon lat el sa sz) rs ts =
     rs @ map (sun_entry orc lon lat el sa sz) (filter (in_tolerance 3 orc lon lat el sa sz) ts)"
  by (induction ts arbitrary: rs) (simp_all add: sun_body_eq)

lemma calculate_sun_eq:
  "calculate_sun w rs lon lat el sa sz s e acc =
     sort_key closeby_of
       (rs @ map (sun_entry (ephem_Sun w) lon lat el sa sz)
               (filter (in_tolerance 3 (ephem_Sun w) lon lat el sa sz) (rrule_minutely acc s e)))"
  by (simp add: calculate_sun_def foldl_sun_body)

lemma moon_body_eq:
  "moon_body orc lon lat el tz sa sz st t =
     (if in_tolerance 2 orc lon lat el sa sz t then (fst st @ [moon_row orc lon lat el tz t], False) else st)"
  by (simp add: moon_body_def in_tolerance_def moon_row_def alt_at_def az_at_def phase_at_def observer_at_def Let_def)

lemma foldl_moon_body:
  "foldl (moon_body orc lon lat el tz sa sz) (tab, e) ts =
     (tab @ map (moon_row orc lon lat el tz) (filter (in_tolerance 2 orc lon lat el sa sz) ts),
      e \<and> filter (in_tolerance 2 orc lon lat el sa sz) ts = [])"
  by (induction ts arbitrary: tab e) (simp_all add: moon_body_eq)

lemma moon_table_eq:
  "moon_table w year lon lat el sa sz =
     (map (moon_row (ephem_Moon w) lon lat el (get_timezone w lon lat))
        (filter (in_tolerance 2 (ephem_Moon w) lon lat el sa sz)
           (rrule_minutely 15 (mk_datetime year 1 1 0 0 0) (mk_datetime year 12 31 23 59 0))),
      filter (in_tolerance 2 (ephem_Moon w) lon lat el sa sz)
           (rrule_minutely 15 (mk_datetime year 1 1 0 0 0) (mk_datetime year 12 31 23 59 0)) = [])"
  by (simp add: moon_table_def foldl_moon_body Let_def)

lemma closeby_of_sun_entry [simp]:
  "closeby_of (sun_entry orc lon lat el sa sz t) = closeby_at orc lon lat el sa sz t"
  by (simp add: closeby_of_def sun_entry_def)

lemma instant_of_sun_entry [simp]:
  "instant_of (sun_entry orc lon lat el sa sz t) = t"
  by (simp add: instant_of_def sun_entry_def)


lemma sort_key_Nil_iff: "sort_key f xs = [] \<longleftrightarrow> xs = []"
  by (metis length_0_conv length_sort)

lemma hd_sort_key_in: "xs \<noteq> [] \<Longrightarrow> hd (sort_key f xs) \<in> set xs"
  by (metis hd_in_set set_sort sort_key_Nil_iff)

lemma hd_sort_key_least:
  assumes "x \<in> set xs"
  shows "f (hd (sort_key f xs)) \<le> f x"
proof -
  from assms have ne: "sort_key f xs \<noteq> []" by (auto simp: sort_key_Nil_iff)
  then obtain h t where ht: "sort_key f xs = h # t" by (cases "sort_key f xs") auto
  have "sorted (map f (sort_key f xs))" by (rule sorted_sort_key)
  moreover have "x \<in> set (sort_key f xs)" using assms by simp
  ultimately show ?thesis using ht by auto
qed

lemma hd_sort_key_first:
  assumes "xs \<noteq> []"
  shows "hd (sort_key f xs) = hd (filter (\<lambda>y. f y = f (hd (sort_key f xs))) xs)"
proof -
  obtain h t where ht: "sort_key f xs = h # t"
    using assms by (cases "sort_key f xs") (auto simp: sort_key_Nil_iff)
  have "filter (\<lambda>y. f y = f h) (sort_key f xs) = filter (\<lambda>y. f y = f h) xs"
    by (rule sort_key_stable)
  then have "filter (\<lambda>y. f y = f h) xs = h # filter (\<lambda>y. f y = f h) t"
    using ht by simp
  then show ?thesis using ht by simp
qed



lemma rrule_minutely_zero: "rrule_minutely 0 s u = []"
  by (simp add: rrule_minutely.simps)

lemma rrule_minutely_strict: "sorted_wrt (<) (rrule_minutely i s u)"
proof (cases "i = 0")
  case True
  then show ?thesis by (simp add: rrule_minutely_zero)
next
  case False
  then have pos: "0 < i" by simp
  have "sorted_wrt (\<lambda>a b. s + 60 * int i * int a < s + 60 * int i * int b) [0..<ticks i s u]"
    by (rule sorted_wrt_mono_rel [where P = "(<)"]) (use pos in auto)
  then show ?thesis
    by (simp add: rrule_minutely_closed [OF pos] sorted_wrt_map)
qed

lemma hd_filter_least:
  assumes "sorted_wrt (<) (ts :: int list)" "t \<in> set ts" "Q t"
  shows "hd (filter Q ts) \<le> t"
proof -
  have s: "sorted_wrt (<) (filter Q ts)" using assms(1) by (rule sorted_wrt_filter)
  have m: "t \<in> set (filter Q ts)" using assms by simp
  then obtain h r where hr: "filter Q ts = h # r" by (cases "filter Q ts") auto
  with s m show ?thesis by auto
qed

lemma hd_map_filter:
  "filter P xs \<noteq> [] \<Longrightarrow> hd (filter P xs) \<in> set xs \<and> P (hd (filter P xs))"
  using hd_in_set [of "filter P xs"] by simp

lemma hd_calculate_sun:
  assumes ne: "calculate_sun w [] lon lat el sa sz s e acc \<noteq> []"
  shows "\<exists>t \<in> set (rrule_minutely acc s e).
           in_tolerance 3 (ephem_Sun w) lon lat el sa sz t \<and>
           hd (calculate_sun w [] lon lat el sa sz s e acc) = sun_entry (ephem_Sun w) lon lat el sa sz t \<and>
           (\<forall>t' \<in> set (rrule_minutely acc s e).
              in_tolerance 3 (ephem_Sun w) lon lat el sa sz t' \<longrightarrow>
                closeby_at (ephem_Sun w) lon lat el sa sz t \<le> closeby_at (ephem_Sun w) lon lat el sa sz t' \<and>
                (closeby_at (ephem_Sun w) lon lat el sa sz t' = closeby_at (ephem_Sun w) lon lat el sa sz t \<longrightarrow> t \<le> t'))"
proof -
  define ts where "ts = rrule_minutely acc s e"
  define A where "A = in_tolerance 3 (ephem_Sun w) lon lat el sa sz"
  define E where "E = sun_entry (ephem_Sun w) lon lat el sa sz"
  define sc where "sc = closeby_at (ephem_Sun w) lon lat el sa sz"
  define xs where "xs = map E (filter A ts)"
  define h where "h = hd (sort_key closeby_of xs)"
  have cs: "calculate_sun w [] lon lat el sa sz s e acc = sort_key closeby_of xs"
    by (simp add: calculate_sun_eq xs_def E_def A_def ts_def)
  have xne: "xs \<noteq> []" using ne cs by (auto simp: sort_key_Nil_iff)
  have cE: "\<And>t. closeby_of (E t) = sc t" by (simp add: E_def sc_def)
  define Q where "Q = (\<lambda>t. A t \<and> sc t = closeby_of h)"
  have "h = hd (filter (\<lambda>y. closeby_of y = closeby_of h) xs)"
    unfolding h_def by (rule hd_sort_key_first [OF xne])
  also have "filter (\<lambda>y. closeby_of y = closeby_of h) xs = map E (filter Q ts)"
    by (simp add: xs_def filter_map o_def cE Q_def conj_commute)
  finally have hq: "h = hd (map E (filter Q ts))" .
  have hin: "h \<in> set xs" unfolding h_def by (rule hd_sort_key_in [OF xne])
  then obtain t1 where t1: "t1 \<in> set ts" "A t1" "h = E t1" by (auto simp: xs_def)
  then have "Q t1" by (simp add: Q_def cE)
  with t1 have qne: "filter Q ts \<noteq> []" by (auto simp: filter_empty_conv)
  define t0 where "t0 = hd (filter Q ts)"
  have h0: "h = E t0" using hq qne by (simp add: t0_def hd_map)
  have t0in: "t0 \<in> set ts" and Qt0: "Q t0"
    using hd_map_filter [OF qne] by (simp_all add: t0_def)
  have sc0: "sc t0 = closeby_of h" using Qt0 by (simp add: Q_def)
  have least: "sc t0 \<le> sc t'" if "t' \<in> set ts" "A t'" for t'
  proof -
    from that have "E t' \<in> set xs" by (simp add: xs_def)
    then have "closeby_of h \<le> closeby_of (E t')"
      unfolding h_def by (rule hd_sort_key_least)
    then show ?thesis by (simp add: sc0 cE)
  qed
  have first: "t0 \<le> t'" if "t' \<in> set ts" "A t'" "sc t' = sc t0" for t'
  proof -
    have "Q t'" using that sc0 by (simp add: Q_def)
    with that(1) show ?thesis
      unfolding t0_def using rrule_minutely_strict [of acc s e]
      by (intro hd_filter_least) (simp_all add: ts_def)
  qed
  have "A t0" using Qt0 by (simp add: Q_def)
  with t0in h0 least first show ?thesis
    unfolding cs h_def [symmetric] ts_def [symmetric] A_def [symmetric] E_def [symmetric] sc_def [symmetric]
    by blast
qed

subsection \<open>The loops over an ephemeris with hidden state\<close>

lemma sun_body_st_eq:
  "sun_body_st compute lon lat el sa sz (rs, s) t =
     (sun_body (\<lambda>ob. fst (compute s ob)) lon lat el sa sz rs t,
      snd (compute s (observer_at lon lat el t)))"
  by (simp add: sun_body_st_def sun_body_def observer_at_def Let_def split_beta)

lemma moon_body_st_eq:
  "moon_body_st compute lon lat el tz sa sz (st, s) t =
     (moon_body (\<lambda>ob. fst (compute s ob)) lon lat el tz sa sz st t,
      snd (compute s (observer_at lon lat el t)))"
  by (simp add: moon_body_st_def moon_body_def observer_at_def Let_def split_beta)

lemma foldl_sun_body_st_logging:
  "foldl (sun_body_st (logging f) lon lat el sa sz) (rs, asked) ts =
     (foldl (sun_body f lon lat el sa sz) rs ts, asked @ map (observer_at lon lat el) ts)"
  by (induction ts arbitrary: rs asked) (simp_all add: sun_body_st_eq logging_def)

lemma foldl_moon_body_st_logging:
  "foldl (moon_body_st (logging f) lon lat el tz sa sz) (st, asked) ts =
     (foldl (moon_body f lon lat el tz sa sz) st ts, asked @ map (observer_at lon lat el) ts)"
  by (induction ts arbitrary: st asked) (simp_all add: moon_body_st_eq logging_def)

lemma calculate_sun_st_logging:
  "calculate_sun_st (logging (ephem_Sun w)) asked rs lon lat el sa sz s e acc =
     (calculate_sun w rs lon lat el sa sz s e acc,
      asked @ map (observer_at lon lat el) (rrule_minutely acc s e))"
  by (simp add: calculate_sun_st_def calculate_sun_def foldl_sun_body_st_logging)

lemma moon_table_st_logging:
  "moon_table_st (logging (ephem_Moon w)) asked (get_timezone w lon lat) year lon lat el sa sz =
     (moon_table w year lon lat el sa sz,
      asked @ map (observer_at lon lat el)
        (rrule_minutely 15 (mk_datetime year 1 1 0 0 0) (mk_datetime year 12 31 23 59 0)))"
  by (simp add: moon_table_st_def moon_table_def foldl_moon_body_st_logging Let_def)

lemma length_rrule_minutely: "0 < i \<Longrightarrow> length (rrule_minutely i s u) = ticks i s u"
  by (simp add: rrule_minutely_closed)

lemma nth_rrule_minutely:
  "0 < i \<Longrightarrow> k < ticks i s u \<Longrightarrow> rrule_minutely i s u ! k = s + 60 * int i * int k"
  by (simp add: rrule_minutely_closed)

subsection \<open>Year bounds\<close>

lemma mk_datetime_jan1: "mk_datetime year 1 1 0 0 0 = (days_before_year year + 1) * 86400"
  by (simp add: mk_datetime_def ymd2ord_def days_before_month_def)

lemma mk_datetime_dec31:
  "mk_datetime year 12 31 23 59 0 =
     (days_before_year year + (if is_leap year then 366 else 365)) * 86400 + 86340"
  by (simp add: mk_datetime_def ymd2ord_def days_before_month_def)

lemma year_2023:
  "mk_datetime 2023 1 1 0 0 0 = 63808214400" "mk_datetime 2023 12 31 23 59 0 = 63839750340"
  unfolding mk_datetime_jan1 mk_datetime_dec31 by (simp_all add: days_before_year_def is_leap_def)

subsection \<open>Accepted instants\<close>

lemma set_instants_calculate_sun:
  "set (map instant_of (calculate_sun w [] lon lat el sa sz s e acc)) =
     {t \<in> set (rrule_minutely acc s e). in_tolerance 3 (ephem_Sun w) lon lat el sa sz t}"
  by (auto simp: calculate_sun_eq image_iff)

lemma hd_moon_row [simp]: "hd (moon_row orc lon lat el tz t) = Moment t tz"
  by (simp add: moon_row_def)

lemma moon_rows:
  "fst (moon_table w year lon lat el sa sz) =
     map (moon_row (ephem_Moon w) lon lat el (get_timezone w lon lat))
       (filter (in_tolerance 2 (ephem_Moon w) lon lat el sa sz)
          (rrule_minutely 15 (mk_datetime year 1 1 0 0 0) (mk_datetime year 12 31 23 59 0)))"
  by (simp add: moon_table_eq)

lemma moon_row_instants:
  "(\<exists>row \<in> set (fst (moon_table w year lon lat el sa sz)). hd row = Moment t (get_timezone w lon lat)) \<longleftrightarrow>
     t \<in> set (rrule_minutely 15 (mk_datetime year 1 1 0 0 0) (mk_datetime year 12 31 23 59 0)) \<and>
     in_tolerance 2 (ephem_Moon w) lon lat el sa sz t"
  by (auto simp: moon_rows)

lemma degree_nonzero [simp]: "degree \<noteq> 0"
  by (simp add: degree_def)

lemma alt_at_sky [simp]: "alt_at (sky f) lon lat el t = fst (f t)"
  by (simp add: alt_at_def sky_def observer_at_def)

lemma az_at_sky [simp]: "az_at (sky f) lon lat el t = snd (f t)"
  by (simp add: az_at_def sky_def observer_at_def)

lemma example_world_simps [simp]:
  "ephem_Sun (example_world f sol) = sky f"
  "ephem_Moon (example_world f sol) = sky f"
  "ephem_next_solstice (example_world f sol) d = sol"
  "get_timezone (example_world f sol) lon lat = ''Europe/Amsterdam''"
  by (simp_all add: example_world_def get_timezone_def)

lemma mem_rrule_minutely:
  assumes "0 < i"
  shows "t \<in> set (rrule_minutely i s u) \<longleftrightarrow> s \<le> t \<and> t \<le> u \<and> (t - s) mod (60 * int i) = 0"
proof
  assume "t \<in> set (rrule_minutely i s u)"
  then obtain k where k: "k < ticks i s u" "t = s + 60 * int i * int k"
    using assms by (auto simp: rrule_minutely_closed)
  from k(1) have su: "s \<le> u" by (simp add: ticks_def split: if_splits)
  have "0 \<le> (u - s) div (60 * int i)"
    using su assms by (simp add: pos_imp_zdiv_nonneg_iff)
  with k(1) su have "int k \<le> (u - s) div (60 * int i)"
    by (simp add: ticks_def)
  then have "60 * int i * int k \<le> 60 * int i * ((u - s) div (60 * int i))"
    using assms by simp
  also have "\<dots> \<le> u - s"
    using assms mult_div_mod_eq [of "60 * int i" "u - s"] pos_mod_sign [of "60 * int i" "u - s"]
    by linarith
  finally show "s \<le> t \<and> t \<le> u \<and> (t - s) mod (60 * int i) = 0"
    using k(2) by simp
next
  assume a: "s \<le> t \<and> t \<le> u \<and> (t - s) mod (60 * int i) = 0"
  define q where "q = (t - s) div (60 * int i)"
  have tq: "t = s + 60 * int i * q"
    using a by (simp add: q_def mod_eq_0_iff_dvd)
  have q0: "0 \<le> q" using a assms by (simp add: q_def pos_imp_zdiv_nonneg_iff)
  have "q \<le> (u - s) div (60 * int i)"
    unfolding q_def using a assms by (intro zdiv_mono1) simp_all
  then have "nat q < ticks i s u" using a q0 by (simp add: ticks_def)
  moreover have "t = s + 60 * int i * int (nat q)" using tq q0 by simp
  ultimately have "t \<in> (\<lambda>k. s + 60 * int i * int k) ` {0..<ticks i s u}"
    by (intro image_eqI [where x = "nat q"]) simp_all
  then show "t \<in> set (rrule_minutely i s u)"
    using assms by (simp add: rrule_minutely_closed)
qed

lemma year_2024:
  "mk_datetime 2024 1 1 0 0 0 = 63839750400" "mk_datetime 2024 12 31 23 59 0 = 63871372740"
  unfolding mk_datetime_jan1 mk_datetime_dec31 by (simp_all add: days_before_year_def is_leap_def)

lemma filter_in_tolerance_strict:
  "sorted_wrt (<) (filter P (rrule_minutely i s u))"
  using rrule_minutely_strict by (rule sorted_wrt_filter)

lemma rrule_minutely_nonempty: "0 < i \<Longrightarrow> s \<le> u \<Longrightarrow> rrule_minutely i s u \<noteq> []"
  by (simp add: rrule_minutely_Cons)

subsection \<open>Answers that do not depend on the hidden state\<close>

lemma foldl_sun_body_st_pure:
  assumes "\<forall>s s' ob. fst (compute s ob) = fst (compute s' ob)"
  shows "fst (foldl (sun_body_st compute lon lat el sa sz) (rs, s1) ts) =
         foldl (sun_body (\<lambda>ob. fst (compute c ob)) lon lat el sa sz) rs ts"
proof (induction ts arbitrary: rs s1)
  case Nil
  show ?case by simp
next
  case (Cons t ts)
  have "(\<lambda>ob. fst (compute s1 ob)) = (\<lambda>ob. fst (compute c ob))"
    using assms by (auto simp: fun_eq_iff)
  then show ?case by (simp add: sun_body_st_eq Cons.IH)
qed

lemma foldl_moon_body_st_pure:
  assumes "\<forall>s s' ob. fst (compute s ob) = fst (compute s' ob)"
  shows "fst (foldl (moon_body_st compute lon lat el tz sa sz) (st, s1) ts) =
         foldl (moon_body (\<lambda>ob. fst (compute c ob)) lon lat el tz sa sz) st ts"
proof (induction ts arbitrary: st s1)
  case Nil
  show ?case by simp
next
  case (Cons t ts)
  have "(\<lambda>ob. fst (compute s1 ob)) = (\<lambda>ob. fst (compute c ob))"
    using assms by (auto simp: fun_eq_iff)
  then show ?case by (simp add: moon_body_st_eq Cons.IH)
qed

subsection \<open>The outcome of a Sun search, and the year's dates\<close>

lemma length_calculate_sun:
  "length (calculate_sun w [] lon lat el sa sz s e acc) =
     length (filter (in_tolerance 3 (ephem_Sun w) lon lat el sa sz) (rrule_minutely acc s e))"
  by (simp add: calculate_sun_eq)

lemma calculate_sun_Nil_iff:
  "calculate_sun w [] lon lat el sa sz s e acc = [] \<longleftrightarrow>
     (\<forall>t \<in> set (rrule_minutely acc s e). \<not> in_tolerance 3 (ephem_Sun w) lon lat el sa sz t)"
  by (simp add: calculate_sun_eq sort_key_Nil_iff filter_empty_conv)

lemma results1_eq:
  "results1 w year lon lat el sa sz acc =
     calculate_sun w [] lon lat el sa sz (date_start year) (date_solstice w year) acc"
  by (simp add: results1_def sun_windows_def)

lemma results2_eq:
  "results2 w year lon lat el sa sz acc =
     calculate_sun w [] lon lat el sa sz (date_solstice w year) (date_end year) acc"
  by (simp add: results2_def sun_windows_def)

lemma get_sun_position_exit:
  "valid_year year \<Longrightarrow> length (results1 w year lon lat el sa sz acc) < 2 \<Longrightarrow>
   get_sun_position w year lon lat el sa sz acc = SysExit no_solution"
  by (simp add: get_sun_position_def Let_def)

lemma get_sun_position_index:
  "valid_year year \<Longrightarrow> 2 \<le> length (results1 w year lon lat el sa sz acc) \<Longrightarrow>
   results2 w year lon lat el sa sz acc = [] \<Longrightarrow>
   get_sun_position w year lon lat el sa sz acc = Raised IndexError"
  by (cases "results1 w year lon lat el sa sz acc") (auto simp: get_sun_position_def Let_def)

lemma get_sun_position_completed:
  "valid_year year \<Longrightarrow> 2 \<le> length (results1 w year lon lat el sa sz acc) \<Longrightarrow>
   results2 w year lon lat el sa sz acc \<noteq> [] \<Longrightarrow>
   get_sun_position w year lon lat el sa sz acc =
     Completed
       [Line ''\<newline>On the following dates and times the sun is closest to the given parameters:\<newline>'',
        Table [''Date and time'', ''Altitude'', ''Azimuth'']
          [sun_row (get_timezone w lon lat) (hd (results1 w year lon lat el sa sz acc)),
           sun_row (get_timezone w lon lat) (hd (results2 w year lon lat el sa sz acc))]]"
  by (cases "results1 w year lon lat el sa sz acc"; cases "results2 w year lon lat el sa sz acc")
     (auto simp: get_sun_position_def Let_def)

lemma get_sun_position_invalid:
  "\<not> valid_year year \<Longrightarrow> get_sun_position w year lon lat el sa sz acc = Raised ValueError"
  by (simp add: get_sun_position_def)

lemma get_sun_position_cases:
  "get_sun_position w year lon lat el sa sz acc =
     (if \<not> valid_year year then Raised ValueError
      else if length (results1 w year lon lat el sa sz acc) < 2 then SysExit no_solution
      else if results2 w year lon lat el sa sz acc = [] then Raised IndexError
      else Completed
       [Line ''\<newline>On the following dates and times the sun is closest to the given parameters:\<newline>'',
        Table [''Date and time'', ''Altitude'', ''Azimuth'']
          [sun_row (get_timezone w lon lat) (hd (results1 w year lon lat el sa sz acc)),
           sun_row (get_timezone w lon lat) (hd (results2 w year lon lat el sa sz acc))]])"
  by (cases "valid_year year"; cases "length (results1 w year lon lat el sa sz acc) < 2";
      cases "results2 w year lon lat el sa sz acc = []")
     (simp_all add: get_sun_position_invalid get_sun_position_exit get_sun_position_index
        get_sun_position_completed not_less)

lemma date_start_eq: "date_start year = (days_before_year year + 1) * 86400"
  unfolding date_start_def by (rule mk_datetime_jan1)

lemma date_end_eq:
  "date_end year = (days_before_year year + (if is_leap year then 366 else 365)) * 86400 + 86340"
  unfolding date_end_def by (rule mk_datetime_dec31)

lemma date_start_hour: "date_start year mod 3600 = 0"
  by (simp add: date_start_eq)

lemma replace_minute_second_0_bounds:
  "replace_minute_second_0 d mod 3600 = 0"
  "replace_minute_second_0 d \<le> d"
  "d < replace_minute_second_0 d + 3600"
  by (simp_all add: replace_minute_second_0_def minus_mod_eq_mult_div)

lemma replace_minute_second_0_mono:
  assumes "a mod 3600 = 0" "a \<le> d"
  shows "a \<le> replace_minute_second_0 d"
proof -
  have "a div 3600 \<le> d div 3600" using assms(2) by (rule zdiv_mono1) simp
  then have "3600 * (a div 3600) \<le> 3600 * (d div 3600)" by simp
  moreover have "3600 * (a div 3600) = a" using assms(1) by (simp add: mod_eq_0_iff_dvd)
  ultimately show ?thesis
    by (simp add: replace_minute_second_0_def minus_mod_eq_mult_div)
qed

lemma date_solstice_bounds:
  assumes "date_start year \<le> ephem_next_solstice w (date_start year)"
    and "ephem_next_solstice w (date_start year) \<le> date_end year"
  shows "date_start year \<le> date_solstice w year" "date_solstice w year \<le> date_end year"
    "date_solstice w year mod 3600 = 0"
proof -
  have ds: "date_solstice w year = replace_minute_second_0 (ephem_next_solstice w (date_start year))"
    by (simp add: date_solstice_def date_start_def)
  show "date_start year \<le> date_solstice w year"
    unfolding ds using date_start_hour assms(1) by (rule replace_minute_second_0_mono)
  show "date_solstice w year \<le> date_end year"
    unfolding ds using replace_minute_second_0_bounds(2) assms(2) by (rule order_trans)
  show "date_solstice w year mod 3600 = 0"
    unfolding ds by (rule replace_minute_second_0_bounds)
qed

lemma solstice_2024_eq: "solstice_2024 = 63854599860"
  by (simp add: solstice_2024_def mk_datetime_def ymd2ord_def days_before_month_def
      days_before_year_def is_leap_def)

lemma dates_2024 [simp]:
  "date_start 2024 = 63839750400" "date_end 2024 = 63871372740"
  "date_solstice (example_world f solstice_2024) 2024 = 63854596800"
  unfolding date_start_def date_end_def date_solstice_def year_2024
  by (simp_all add: solstice_2024_eq replace_minute_second_0_def)

lemma get_moon_position_empty:
  assumes "valid_year year"
    and "\<forall>t \<in> set (rrule_minutely 15 (mk_datetime year 1 1 0 0 0) (mk_datetime year 12 31 23 59 0)).
           \<not> in_tolerance 2 (ephem_Moon w) lon lat el sa sz t"
  shows "get_moon_position w year lon lat el sa sz = Completed [Line no_solution]"
proof -
  have "filter (in_tolerance 2 (ephem_Moon w) lon lat el sa sz)
          (rrule_minutely 15 (mk_datetime year 1 1 0 0 0) (mk_datetime year 12 31 23 59 0)) = []"
    using assms(2) by (simp add: filter_empty_conv)
  then show ?thesis
    using assms(1) by (simp add: get_moon_position_def moon_table_eq)
qed

subsection \<open>The boundary instant\<close>

lemma hour_on_grid:
  assumes "a mod 3600 = 0" "b mod 3600 = 0" "acc = 15 \<or> acc = (2::nat)"
  shows "(b - a) mod (60 * int acc) = 0"
proof -
  have "(3600::int) dvd b - a" using assms(1,2) by (simp add: mod_eq_0_iff_dvd)
  moreover have "60 * int acc dvd 3600" using assms(3) by auto
  ultimately have "60 * int acc dvd b - a" by (rule dvd_trans [rotated])
  then show ?thesis by (simp add: mod_eq_0_iff_dvd)
qed

lemma hd_calculate_sun_unique:
  assumes "t0 \<in> set (rrule_minutely acc s e)"
    and "in_tolerance 3 (ephem_Sun w) lon lat el sa sz t0"
    and "\<forall>t \<in> set (rrule_minutely acc s e). t < t0 \<and> in_tolerance 3 (ephem_Sun w) lon lat el sa sz t \<longrightarrow>
           closeby_at (ephem_Sun w) lon lat el sa sz t0 < closeby_at (ephem_Sun w) lon lat el sa sz t"
    and "\<forall>t \<in> set (rrule_minutely acc s e). in_tolerance 3 (ephem_Sun w) lon lat el sa sz t \<longrightarrow>
           closeby_at (ephem_Sun w) lon lat el sa sz t0 \<le> closeby_at (ephem_Sun w) lon lat el sa sz t"
  shows "hd (calculate_sun w [] lon lat el sa sz s e acc) = sun_entry (ephem_Sun w) lon lat el sa sz t0"
proof -
  have ne: "calculate_sun w [] lon lat el sa sz s e acc \<noteq> []"
    using assms(1,2) by (auto simp: calculate_sun_Nil_iff)
  from hd_calculate_sun [OF ne] obtain t where t:
    "t \<in> set (rrule_minutely acc s e)" "in_tolerance 3 (ephem_Sun w) lon lat el sa sz t"
    "hd (calculate_sun w [] lon lat el sa sz s e acc) = sun_entry (ephem_Sun w) lon lat el sa sz t"
    "\<forall>t' \<in> set (rrule_minutely acc s e). in_tolerance 3 (ephem_Sun w) lon lat el sa sz t' \<longrightarrow>
        closeby_at (ephem_Sun w) lon lat el sa sz t \<le> closeby_at (ephem_Sun w) lon lat el sa sz t' \<and>
        (closeby_at (ephem_Sun w) lon lat el sa sz t' = closeby_at (ephem_Sun w) lon lat el sa sz t \<longrightarrow> t \<le> t')"
    by blast
  have le: "closeby_at (ephem_Sun w) lon lat el sa sz t \<le> closeby_at (ephem_Sun w) lon lat el sa sz t0"
    using t(4) assms(1,2) by blast
  have ge: "closeby_at (ephem_Sun w) lon lat el sa sz t0 \<le> closeby_at (ephem_Sun w) lon lat el sa sz t"
    using assms(4) t(1,2) by blast
  from le ge have eq: "closeby_at (ephem_Sun w) lon lat el sa sz t0 = closeby_at (ephem_Sun w) lon lat el sa sz t"
    by simp
  then have "t \<le> t0" using t(4) assms(1,2) by blast
  moreover have "\<not> t < t0" using assms(3) t(1,2) eq by auto
  ultimately have "t = t0" by simp
  with t(3) show ?thesis by simp
qed

section \<open>The claims\<close>

text \<open>
  C6. For a window from \<open>s\<close> to \<open>u\<close> (\<open>s \<le> u\<close>) and a step of \<open>i > 0\<close> minutes, the
  sampler enumerates exactly \<open>\<lfloor>(u - s) / i\<rfloor> + 1\<close> instants (the difference taken in
  minutes; the model counts seconds, so the divisor is \<open>60 * i\<close>), the \<open>k\<close>-th instant is
  \<open>s + k * i\<close> minutes, the instants increase strictly, and the ephemeris is asked once per
  instant: run over an oracle that records its queries, \<^verbatim>\<open>calculate_sun\<close> and the Moon loop
  return what they return otherwise, and the record is the list of the window's instants,
  in order, each with the observer's place.
\<close>

theorem sampler_grid:
  assumes "0 < i" and "s \<le> u"
  shows "length (rrule_minutely i s u) = nat \<lfloor>real_of_int (u - s) / real_of_int (60 * int i)\<rfloor> + 1
       \<and> (\<forall>k < length (rrule_minutely i s u). rrule_minutely i s u ! k = s + int k * (60 * int i))
       \<and> sorted_wrt (<) (rrule_minutely i s u)
       \<and> calculate_sun_st (logging (ephem_Sun w)) [] rs lon lat el sa sz s u i =
           (calculate_sun w rs lon lat el sa sz s u i,
            map (observer_at lon lat el) (rrule_minutely i s u))
       \<and> moon_table_st (logging (ephem_Moon w)) [] (get_timezone w lon lat) year lon lat el sa sz =
           (moon_table w year lon lat el sa sz,
            map (observer_at lon lat el)
              (rrule_minutely 15 (mk_datetime year 1 1 0 0 0) (mk_datetime year 12 31 23 59 0)))"
proof -
  have "\<lfloor>real_of_int (u - s) / real_of_int (60 * int i)\<rfloor> = (u - s) div (60 * int i)"
    by (rule floor_divide_of_int_eq)
  then have len: "length (rrule_minutely i s u) =
      nat \<lfloor>real_of_int (u - s) / real_of_int (60 * int i)\<rfloor> + 1"
    using assms by (simp add: length_rrule_minutely ticks_def)
  have nth: "\<forall>k < length (rrule_minutely i s u). rrule_minutely i s u ! k = s + int k * (60 * int i)"
    using assms(1) by (simp add: length_rrule_minutely nth_rrule_minutely mult.commute)
  show ?thesis
    using len nth rrule_minutely_strict [of i s u]
      calculate_sun_st_logging [of w "[]" rs lon lat el sa sz s u i]
      moon_table_st_logging [of w "[]" lon lat year el sa sz]
    by simp
qed

theorem sampler_grid_witness:
  "(0::nat) < 15 \<and> mk_datetime 2023 1 1 0 0 0 \<le> mk_datetime 2023 12 31 23 59 0
   \<and> length (rrule_minutely 15 (mk_datetime 2023 1 1 0 0 0) (mk_datetime 2023 12 31 23 59 0)) = 35040
   \<and> rrule_minutely 15 (mk_datetime 2023 1 1 0 0 0) (mk_datetime 2023 12 31 23 59 0) ! 4
       = mk_datetime 2023 1 1 0 0 0 + 3600"
proof -
  have h1: "(0::nat) < 15" by simp
  have h2: "mk_datetime 2023 1 1 0 0 0 \<le> mk_datetime 2023 12 31 23 59 0"
    unfolding year_2023 by simp
  note g = sampler_grid [OF h1 h2]
  have len: "length (rrule_minutely 15 (mk_datetime 2023 1 1 0 0 0) (mk_datetime 2023 12 31 23 59 0)) = 35040"
    using g unfolding year_2023 by simp
  moreover have "rrule_minutely 15 (mk_datetime 2023 1 1 0 0 0) (mk_datetime 2023 12 31 23 59 0) ! 4
       = mk_datetime 2023 1 1 0 0 0 + 3600"
    using g len unfolding year_2023 by simp
  ultimately show ?thesis using h1 h2 by simp
qed

text \<open>
  C2. An instant of the window is among the candidates of \<^verbatim>\<open>calculate_sun\<close> exactly if
  both \<open>\<bar>altitude - target altitude\<bar> < 3\<close> and \<open>\<bar>azimuth - target azimuth\<bar> < 3\<close> hold for
  the ephemeris' answer there, and it has a row in the Moon table exactly if both deviations
  are below 2; an instant whose deviation on either axis equals the bound is rejected.
\<close>

theorem tolerance_filter:
  "(t \<in> set (map instant_of (calculate_sun w [] lon lat el sa sz s e acc)) \<longleftrightarrow>
      t \<in> set (rrule_minutely acc s e) \<and>
      \<bar>alt_at (ephem_Sun w) lon lat el t - sa\<bar> < 3 \<and> \<bar>az_at (ephem_Sun w) lon lat el t - sz\<bar> < 3)
   \<and> ((\<exists>row \<in> set (fst (moon_table w year lon lat el sa sz)).
          hd row = Moment t (get_timezone w lon lat)) \<longleftrightarrow>
      t \<in> set (rrule_minutely 15 (mk_datetime year 1 1 0 0 0) (mk_datetime year 12 31 23 59 0)) \<and>
      \<bar>alt_at (ephem_Moon w) lon lat el t - sa\<bar> < 2 \<and> \<bar>az_at (ephem_Moon w) lon lat el t - sz\<bar> < 2)
   \<and> (\<bar>alt_at (ephem_Sun w) lon lat el t - sa\<bar> = 3 \<or> \<bar>az_at (ephem_Sun w) lon lat el t - sz\<bar> = 3 \<longrightarrow>
      t \<notin> set (map instant_of (calculate_sun w [] lon lat el sa sz s e acc)))
   \<and> (\<bar>alt_at (ephem_Moon w) lon lat el t - sa\<bar> = 2 \<or> \<bar>az_at (ephem_Moon w) lon lat el t - sz\<bar> = 2 \<longrightarrow>
      \<not> (\<exists>row \<in> set (fst (moon_table w year lon lat el sa sz)).
           hd row = Moment t (get_timezone w lon lat)))"
  unfolding moon_row_instants set_instants_calculate_sun
  by (auto simp: in_tolerance_def)

theorem tolerance_filter_witness:
  "\<bar>az_at (ephem_Sun (example_world
        (\<lambda>t. if t = 63839750400 then (45, 183) else if t = 63839751300 then (45, 182) else (45, 180))
        solstice_2024)) ''49.8731'' ''7.2332'' 0 63839750400 - 180\<bar> = 3
   \<and> 63839750400 \<notin> set (map instant_of (calculate_sun (example_world
        (\<lambda>t. if t = 63839750400 then (45, 183) else if t = 63839751300 then (45, 182) else (45, 180))
        solstice_2024) [] ''49.8731'' ''7.2332'' 0 45 180 63839750400 63839752200 15))
   \<and> 63839751300 \<in> set (map instant_of (calculate_sun (example_world
        (\<lambda>t. if t = 63839750400 then (45, 183) else if t = 63839751300 then (45, 182) else (45, 180))
        solstice_2024) [] ''49.8731'' ''7.2332'' 0 45 180 63839750400 63839752200 15))
   \<and> \<bar>az_at (ephem_Moon (example_world
        (\<lambda>t. if t = 63839750400 then (45, 183) else if t = 63839751300 then (45, 182) else (45, 180))
        solstice_2024)) ''49.8731'' ''7.2332'' 0 63839751300 - 180\<bar> = 2
   \<and> \<not> (\<exists>row \<in> set (fst (moon_table (example_world
        (\<lambda>t. if t = 63839750400 then (45, 183) else if t = 63839751300 then (45, 182) else (45, 180))
        solstice_2024) 2024 ''49.8731'' ''7.2332'' 0 45 180)). hd row = Moment 63839751300 ''Europe/Amsterdam'')
   \<and> (\<exists>row \<in> set (fst (moon_table (example_world
        (\<lambda>t. if t = 63839750400 then (45, 183) else if t = 63839751300 then (45, 182) else (45, 180))
        solstice_2024) 2024 ''49.8731'' ''7.2332'' 0 45 180)). hd row = Moment 63839752200 ''Europe/Amsterdam'')"
proof -
  define W where "W = example_world
        (\<lambda>t. if t = 63839750400 then (45, 183) else if t = 63839751300 then (45, 182) else (45::real, 180::real))
        solstice_2024"
  have tz: "get_timezone W ''49.8731'' ''7.2332'' = ''Europe/Amsterdam''"
    by (simp add: W_def)
  have a: "\<bar>az_at (ephem_Sun W) ''49.8731'' ''7.2332'' 0 63839750400 - 180\<bar> = 3"
    by (simp add: W_def)
  have b: "\<bar>az_at (ephem_Moon W) ''49.8731'' ''7.2332'' 0 63839751300 - 180\<bar> = 2"
    by (simp add: W_def)
  have c1: "63839750400 \<notin> set (map instant_of (calculate_sun W [] ''49.8731'' ''7.2332'' 0 45 180 63839750400 63839752200 15))"
    using a tolerance_filter [of 63839750400 W "''49.8731''" "''7.2332''" 0 45 180 63839750400 63839752200 15 2024]
    by blast
  have c2: "63839751300 \<in> set (map instant_of (calculate_sun W [] ''49.8731'' ''7.2332'' 0 45 180 63839750400 63839752200 15))"
    using tolerance_filter [of 63839751300 W "''49.8731''" "''7.2332''" 0 45 180 63839750400 63839752200 15 2024]
    by (simp add: W_def mem_rrule_minutely)
  have c3: "\<not> (\<exists>row \<in> set (fst (moon_table W 2024 ''49.8731'' ''7.2332'' 0 45 180)). hd row = Moment 63839751300 ''Europe/Amsterdam'')"
    using b tolerance_filter [of 63839751300 W "''49.8731''" "''7.2332''" 0 45 180 63839750400 63839752200 15 2024]
    unfolding tz by blast
  have c4: "\<exists>row \<in> set (fst (moon_table W 2024 ''49.8731'' ''7.2332'' 0 45 180)). hd row = Moment 63839752200 ''Europe/Amsterdam''"
    using tolerance_filter [of 63839752200 W "''49.8731''" "''7.2332''" 0 45 180 63839750400 63839752200 15 2024]
    unfolding tz year_2024 by (simp add: W_def mem_rrule_minutely)
  show ?thesis using a b c1 c2 c3 c4 unfolding W_def by blast
qed

text \<open>
  C7. In Moon mode the table has exactly one row for each instant of the year's grid that
  passes the test, the rows stand in the order in which the sampler enumerates the instants
  (strictly increasing), nothing is scored or sorted, and that table is what is printed
  when it is not empty.
\<close>

theorem moon_rows_chronological:
  "fst (moon_table w year lon lat el sa sz) =
      map (\<lambda>t. [Moment t (get_timezone w lon lat),
                 Number (py_round (alt_at (ephem_Moon w) lon lat el t) 2),
                 Number (py_round (az_at (ephem_Moon w) lon lat el t) 2),
                 Percent (py_round (phase_at (ephem_Moon w) lon lat el t * 100) 1)])
        (filter (\<lambda>t. \<bar>alt_at (ephem_Moon w) lon lat el t - sa\<bar> < 2 \<and>
                      \<bar>az_at (ephem_Moon w) lon lat el t - sz\<bar> < 2)
           (rrule_minutely 15 (mk_datetime year 1 1 0 0 0) (mk_datetime year 12 31 23 59 0)))
   \<and> sorted_wrt (<)
        (filter (\<lambda>t. \<bar>alt_at (ephem_Moon w) lon lat el t - sa\<bar> < 2 \<and>
                      \<bar>az_at (ephem_Moon w) lon lat el t - sz\<bar> < 2)
           (rrule_minutely 15 (mk_datetime year 1 1 0 0 0) (mk_datetime year 12 31 23 59 0)))
   \<and> (valid_year year \<and>
       filter (\<lambda>t. \<bar>alt_at (ephem_Moon w) lon lat el t - sa\<bar> < 2 \<and>
                      \<bar>az_at (ephem_Moon w) lon lat el t - sz\<bar> < 2)
           (rrule_minutely 15 (mk_datetime year 1 1 0 0 0) (mk_datetime year 12 31 23 59 0)) \<noteq> [] \<longrightarrow>
       get_moon_position w year lon lat el sa sz =
         Completed
           [Line ''\<newline>On the following dates and times the moon is closest to the given parameters:\<newline>'',
            Table [''Date and time'', ''Altitude'', ''Azimuth'', ''Illumination'']
              (fst (moon_table w year lon lat el sa sz))])"
proof -
  have eq: "in_tolerance 2 (ephem_Moon w) lon lat el sa sz =
      (\<lambda>t. \<bar>alt_at (ephem_Moon w) lon lat el t - sa\<bar> < 2 \<and> \<bar>az_at (ephem_Moon w) lon lat el t - sz\<bar> < 2)"
    by (simp add: in_tolerance_def fun_eq_iff)
  have row: "moon_row (ephem_Moon w) lon lat el (get_timezone w lon lat) =
      (\<lambda>t. [Moment t (get_timezone w lon lat),
                 Number (py_round (alt_at (ephem_Moon w) lon lat el t) 2),
                 Number (py_round (az_at (ephem_Moon w) lon lat el t) 2),
                 Percent (py_round (phase_at (ephem_Moon w) lon lat el t * 100) 1)])"
    by (simp add: moon_row_def fun_eq_iff)
  show ?thesis
    unfolding eq [symmetric] row [symmetric]
    by (simp add: moon_rows filter_in_tolerance_strict get_moon_position_def moon_table_eq)
qed

theorem moon_rows_chronological_witness:
  "valid_year 2024
   \<and> filter (\<lambda>t. \<bar>alt_at (ephem_Moon (example_world (\<lambda>t. (45, 180)) solstice_2024)) ''49.8731'' ''7.2332'' 0 t - 45\<bar> < 2 \<and>
                 \<bar>az_at (ephem_Moon (example_world (\<lambda>t. (45, 180)) solstice_2024)) ''49.8731'' ''7.2332'' 0 t - 180\<bar> < 2)
        (rrule_minutely 15 (mk_datetime 2024 1 1 0 0 0) (mk_datetime 2024 12 31 23 59 0)) \<noteq> []
   \<and> get_moon_position (example_world (\<lambda>t. (45, 180)) solstice_2024) 2024 ''49.8731'' ''7.2332'' 0 45 180 =
       Completed
         [Line ''\<newline>On the following dates and times the moon is closest to the given parameters:\<newline>'',
          Table [''Date and time'', ''Altitude'', ''Azimuth'', ''Illumination'']
            (map (\<lambda>t. [Moment t ''Europe/Amsterdam'', Number 45, Number 180, Percent 50])
               (rrule_minutely 15 (mk_datetime 2024 1 1 0 0 0) (mk_datetime 2024 12 31 23 59 0)))]"
proof -
  define W where "W = example_world (\<lambda>t. (45::real, 180::real)) solstice_2024"
  have v: "valid_year 2024" by (simp add: valid_year_def)
  have f: "filter (\<lambda>t. \<bar>alt_at (ephem_Moon W) ''49.8731'' ''7.2332'' 0 t - 45\<bar> < 2 \<and>
                 \<bar>az_at (ephem_Moon W) ''49.8731'' ''7.2332'' 0 t - 180\<bar> < 2)
        (rrule_minutely 15 (mk_datetime 2024 1 1 0 0 0) (mk_datetime 2024 12 31 23 59 0)) =
        rrule_minutely 15 (mk_datetime 2024 1 1 0 0 0) (mk_datetime 2024 12 31 23 59 0)"
    by (simp add: W_def)
  have ne: "rrule_minutely 15 (mk_datetime 2024 1 1 0 0 0) (mk_datetime 2024 12 31 23 59 0) \<noteq> []"
    unfolding year_2024 by (rule rrule_minutely_nonempty) simp_all
  have r45: "py_round 45 2 = 45" "py_round 180 2 = 180" "py_round 50 (Suc 0) = 50"
    by (simp_all add: py_round_def)
  note m = moon_rows_chronological [of W 2024 "''49.8731''" "''7.2332''" 0 45 180]
  have rows: "fst (moon_table W 2024 ''49.8731'' ''7.2332'' 0 45 180) =
      map (\<lambda>t. [Moment t ''Europe/Amsterdam'', Number 45, Number 180, Percent 50])
               (rrule_minutely 15 (mk_datetime 2024 1 1 0 0 0) (mk_datetime 2024 12 31 23 59 0))"
    using m unfolding f by (simp add: W_def r45 phase_at_def sky_def)
  have fne: "filter (\<lambda>t. \<bar>alt_at (ephem_Moon W) ''49.8731'' ''7.2332'' 0 t - 45\<bar> < 2 \<and>
                 \<bar>az_at (ephem_Moon W) ''49.8731'' ''7.2332'' 0 t - 180\<bar> < 2)
        (rrule_minutely 15 (mk_datetime 2024 1 1 0 0 0) (mk_datetime 2024 12 31 23 59 0)) \<noteq> []"
    unfolding f by (rule ne)
  have g: "get_moon_position W 2024 ''49.8731'' ''7.2332'' 0 45 180 =
       Completed
         [Line ''\<newline>On the following dates and times the moon is closest to the given parameters:\<newline>'',
          Table [''Date and time'', ''Altitude'', ''Azimuth'', ''Illumination'']
            (fst (moon_table W 2024 ''49.8731'' ''7.2332'' 0 45 180))]"
    using m v fne by blast
  show ?thesis
    unfolding W_def [symmetric]
    using v fne g [unfolded rows] by (intro conjI)
qed

text \<open>
  C8. Azimuths are compared as raw differences of degrees, without wrapping at 0/360: with
  the target azimuth 359, an instant at which the body stands at azimuth 1 is rejected in
  both modes (\<open>\<bar>1 - 359\<bar> = 358\<close> is not below the bound), whatever its altitude.
\<close>

theorem azimuth_no_wraparound:
  "(az_at (ephem_Sun w) lon lat el t = 1 \<longrightarrow>
      t \<notin> set (map instant_of (calculate_sun w [] lon lat el sa 359 s e acc)))
   \<and> (az_at (ephem_Moon w) lon lat el t = 1 \<longrightarrow>
      \<not> (\<exists>row \<in> set (fst (moon_table w year lon lat el sa 359)).
           hd row = Moment t (get_timezone w lon lat)))"
  unfolding moon_row_instants set_instants_calculate_sun
  by (simp add: in_tolerance_def)

theorem azimuth_no_wraparound_witness:
  "az_at (ephem_Sun (example_world (\<lambda>t. (45, 1)) solstice_2024)) ''49.8731'' ''7.2332'' 0 63839750400 = 1
   \<and> alt_at (ephem_Sun (example_world (\<lambda>t. (45, 1)) solstice_2024)) ''49.8731'' ''7.2332'' 0 63839750400 = 45
   \<and> 63839750400 \<in> set (rrule_minutely 15 63839750400 63839752200)
   \<and> 63839750400 \<notin> set (map instant_of (calculate_sun (example_world (\<lambda>t. (45, 1)) solstice_2024) []
        ''49.8731'' ''7.2332'' 0 45 359 63839750400 63839752200 15))
   \<and> az_at (ephem_Moon (example_world (\<lambda>t. (45, 1)) solstice_2024)) ''49.8731'' ''7.2332'' 0 63839750400 = 1
   \<and> \<not> (\<exists>row \<in> set (fst (moon_table (example_world (\<lambda>t. (45, 1)) solstice_2024) 2024
        ''49.8731'' ''7.2332'' 0 45 359)). hd row = Moment 63839750400 ''Europe/Amsterdam'')"
proof -
  define W where "W = example_world (\<lambda>t. (45::real, 1::real)) solstice_2024"
  have a: "az_at (ephem_Sun W) ''49.8731'' ''7.2332'' 0 63839750400 = 1"
    and b: "az_at (ephem_Moon W) ''49.8731'' ''7.2332'' 0 63839750400 = 1"
    and c: "alt_at (ephem_Sun W) ''49.8731'' ''7.2332'' 0 63839750400 = 45"
    and tz: "get_timezone W ''49.8731'' ''7.2332'' = ''Europe/Amsterdam''"
    by (simp_all add: W_def)
  have g: "63839750400 \<in> set (rrule_minutely 15 63839750400 63839752200)"
    by (simp add: mem_rrule_minutely)
  note n = azimuth_no_wraparound [of W "''49.8731''" "''7.2332''" 0 63839750400 45 63839750400 63839752200 15 2024]
  show ?thesis using a b c g n unfolding tz unfolding W_def by blast
qed

text \<open>
  C9. If the answers of the ephemeris do not depend on its hidden state (it is a
  deterministic function of observer and instant), then two runs with the same observer,
  target, window or year and step give the same ordered sequence of matches, whatever
  hidden state each run starts from.
\<close>

theorem deterministic_runs:
  assumes "\<forall>s s' ob. fst (compute s ob) = fst (compute s' ob)"
  shows "fst (calculate_sun_st compute s1 rs lon lat el sa sz cs ce acc) =
           fst (calculate_sun_st compute s2 rs lon lat el sa sz cs ce acc)
       \<and> fst (moon_table_st compute s1 tz year lon lat el sa sz) =
           fst (moon_table_st compute s2 tz year lon lat el sa sz)"
  using foldl_sun_body_st_pure [OF assms, of lon lat el sa sz rs s1 _ s1]
    foldl_sun_body_st_pure [OF assms, of lon lat el sa sz rs s2 _ s1]
    foldl_moon_body_st_pure [OF assms, of lon lat el tz sa sz _ s1 _ s1]
    foldl_moon_body_st_pure [OF assms, of lon lat el tz sa sz _ s2 _ s1]
  by (simp add: calculate_sun_st_def moon_table_st_def split_beta Let_def)

theorem deterministic_runs_witness:
  "(\<forall>s s' ob. fst ((\<lambda>n ob. (sky (\<lambda>t. (45, 180)) ob, Suc n)) s ob) =
               fst ((\<lambda>n ob. (sky (\<lambda>t. (45, 180)) ob, Suc n)) s' ob))
   \<and> fst (calculate_sun_st (\<lambda>n ob. (sky (\<lambda>t. (45, 180)) ob, Suc n)) 0 []
            ''49.8731'' ''7.2332'' 0 44 181 63839750400 63839752200 15) =
     fst (calculate_sun_st (\<lambda>n ob. (sky (\<lambda>t. (45, 180)) ob, Suc n)) 7 []
            ''49.8731'' ''7.2332'' 0 44 181 63839750400 63839752200 15)
   \<and> snd (calculate_sun_st (\<lambda>n ob. (sky (\<lambda>t. (45, 180)) ob, Suc n)) 0 []
            ''49.8731'' ''7.2332'' 0 44 181 63839750400 63839752200 15) \<noteq>
     snd (calculate_sun_st (\<lambda>n ob. (sky (\<lambda>t. (45, 180)) ob, Suc n)) 7 []
            ''49.8731'' ''7.2332'' 0 44 181 63839750400 63839752200 15)"
proof -
  have p: "\<forall>s s' ob. fst ((\<lambda>n ob. (sky (\<lambda>t. (45::real, 180::real)) ob, Suc n)) s ob) =
               fst ((\<lambda>n ob. (sky (\<lambda>t. (45, 180)) ob, Suc n)) s' ob)"
    by simp
  have sn: "snd (foldl (sun_body_st (\<lambda>n ob. (sky (\<lambda>t. (45::real, 180::real)) ob, Suc n)) lon lat el sa sz) (rs, n) ts)
       = n + length ts" for lon lat el sa sz rs n ts
    by (induction ts arbitrary: rs n) (simp_all add: sun_body_st_eq)
  have "snd (calculate_sun_st (\<lambda>n ob. (sky (\<lambda>t. (45::real, 180::real)) ob, Suc n)) 0 []
            ''49.8731'' ''7.2332'' 0 44 181 63839750400 63839752200 15) \<noteq>
     snd (calculate_sun_st (\<lambda>n ob. (sky (\<lambda>t. (45, 180)) ob, Suc n)) 7 []
            ''49.8731'' ''7.2332'' 0 44 181 63839750400 63839752200 15)"
    by (simp add: calculate_sun_st_def split_beta sn)
  then show ?thesis
    using p deterministic_runs [OF p, of 0 "[]" "''49.8731''" "''7.2332''" 0 44 181 63839750400 63839752200 15 7]
    by blast
qed

text \<open>
  C3. For a year whose solstice (as the ephemeris gives it) lies within the year, the Sun
  search derives two windows: the first from 1 January 00:00:00 to the solstice instant
  truncated to the top of the hour (a whole hour, not after the solstice and less than an
  hour before it), the second from that same instant to 31 December 23:59:00; the two
  calls of \<^verbatim>\<open>calculate_sun\<close> search these windows, and the two windows have exactly that one
  boundary instant in common.
\<close>

theorem window_partition:
  assumes "date_start year \<le> ephem_next_solstice w (date_start year)"
    and "ephem_next_solstice w (date_start year) \<le> date_end year"
  shows "sun_windows w year =
           ((mk_datetime year 1 1 0 0 0, date_solstice w year),
            (date_solstice w year, mk_datetime year 12 31 23 59 0))
       \<and> date_solstice w year mod 3600 = 0
       \<and> date_solstice w year \<le> ephem_next_solstice w (mk_datetime year 1 1 0 0 0)
       \<and> ephem_next_solstice w (mk_datetime year 1 1 0 0 0) < date_solstice w year + 3600
       \<and> results1 w year lon lat el sa sz acc =
           calculate_sun w [] lon lat el sa sz
             (mk_datetime year 1 1 0 0 0) (date_solstice w year) acc
       \<and> results2 w year lon lat el sa sz acc =
           calculate_sun w [] lon lat el sa sz
             (date_solstice w year) (mk_datetime year 12 31 23 59 0) acc
       \<and> {t. mk_datetime year 1 1 0 0 0 \<le> t \<and> t \<le> date_solstice w year} \<inter>
           {t. date_solstice w year \<le> t \<and> t \<le> mk_datetime year 12 31 23 59 0} =
           {date_solstice w year}"
proof -
  note b = date_solstice_bounds [OF assms]
  have w: "sun_windows w year =
           ((mk_datetime year 1 1 0 0 0, date_solstice w year),
            (date_solstice w year, mk_datetime year 12 31 23 59 0))"
    by (simp only: sun_windows_def date_start_def date_end_def)
  have t: "date_solstice w year \<le> ephem_next_solstice w (mk_datetime year 1 1 0 0 0)"
    "ephem_next_solstice w (mk_datetime year 1 1 0 0 0) < date_solstice w year + 3600"
    unfolding date_solstice_def by (rule replace_minute_second_0_bounds)+
  have r: "results1 w year lon lat el sa sz acc =
           calculate_sun w [] lon lat el sa sz
             (mk_datetime year 1 1 0 0 0) (date_solstice w year) acc"
    "results2 w year lon lat el sa sz acc =
           calculate_sun w [] lon lat el sa sz
             (date_solstice w year) (mk_datetime year 12 31 23 59 0) acc"
    by (simp_all only: results1_eq results2_eq date_start_def date_end_def)
  have i: "{t. mk_datetime year 1 1 0 0 0 \<le> t \<and> t \<le> date_solstice w year} \<inter>
           {t. date_solstice w year \<le> t \<and> t \<le> mk_datetime year 12 31 23 59 0} =
           {date_solstice w year}"
    using b(1,2) unfolding date_start_def date_end_def by auto
  show ?thesis using w b(3) t r i by (intro conjI)
qed

theorem window_partition_witness:
  "date_start 2024 \<le> ephem_next_solstice (example_world (\<lambda>t. (45, 180)) solstice_2024) (date_start 2024)
   \<and> ephem_next_solstice (example_world (\<lambda>t. (45, 180)) solstice_2024) (date_start 2024) \<le> date_end 2024
   \<and> sun_windows (example_world (\<lambda>t. (45, 180)) solstice_2024) 2024 =
        ((63839750400, 63854596800), (63854596800, 63871372740))
   \<and> {t. (63839750400::int) \<le> t \<and> t \<le> 63854596800} \<inter> {t. 63854596800 \<le> t \<and> t \<le> 63871372740}
        = {63854596800}"
proof -
  define W where "W = example_world (\<lambda>t. (45::real, 180::real)) solstice_2024"
  have h1: "date_start 2024 \<le> ephem_next_solstice W (date_start 2024)"
    and h2: "ephem_next_solstice W (date_start 2024) \<le> date_end 2024"
    by (simp_all add: W_def solstice_2024_eq)
  have d: "date_solstice W 2024 = 63854596800" by (simp add: W_def)
  note p = window_partition [OF h1 h2, unfolded d year_2024]
  show ?thesis unfolding W_def [symmetric] using h1 h2 p by (intro conjI) blast+
qed

text \<open>
  C4. When no instant of the year's grid passes the Moon test, a Moon run prints the
  'no solution' message and ends normally, with exit status 0. A Sun run ends by
  \<^verbatim>\<open>sys.exit\<close> with the 'no solution' message exactly when fewer than 2 instants of the
  first window pass the Sun test, and an exit by \<^verbatim>\<open>sys.exit\<close> carries that message and a
  non-zero exit status. (The year is one that \<^verbatim>\<open>datetime\<close> accepts.)
\<close>

theorem no_solution_exits:
  "(valid_year (arg_year a) \<and> arg_moon a \<and>
      (\<forall>t \<in> set (rrule_minutely 15 (mk_datetime (arg_year a) 1 1 0 0 0)
                     (mk_datetime (arg_year a) 12 31 23 59 0)).
         \<not> (\<bar>alt_at (ephem_Moon w) (arg_lon a) (arg_lat a)
                 (get_elevation w (arg_lon a) (arg_lat a)) t - arg_alt a\<bar> < 2 \<and>
            \<bar>az_at (ephem_Moon w) (arg_lon a) (arg_lat a)
                 (get_elevation w (arg_lon a) (arg_lat a)) t - arg_az a\<bar> < 2)) \<longrightarrow>
      main w a = Completed [Line no_solution] \<and> exit_status (main w a) = 0)
   \<and> (valid_year (arg_year a) \<and> \<not> arg_moon a \<longrightarrow>
        (main w a = SysExit no_solution \<longleftrightarrow>
           length (filter (\<lambda>t. \<bar>alt_at (ephem_Sun w) (arg_lon a) (arg_lat a)
                                  (get_elevation w (arg_lon a) (arg_lat a)) t - arg_alt a\<bar> < 3 \<and>
                                \<bar>az_at (ephem_Sun w) (arg_lon a) (arg_lat a)
                                  (get_elevation w (arg_lon a) (arg_lat a)) t - arg_az a\<bar> < 3)
                     (rrule_minutely (arg_accuracy a) (date_start (arg_year a))
                        (date_solstice w (arg_year a)))) < 2)
        \<and> (\<forall>msg. main w a = SysExit msg \<longrightarrow> msg = no_solution \<and> exit_status (main w a) \<noteq> 0))
   \<and> no_solution = ''No possible solution found. Please check the given parameters.''"
proof -
  define el where "el = get_elevation w (arg_lon a) (arg_lat a)"
  have tol2: "in_tolerance 2 (ephem_Moon w) (arg_lon a) (arg_lat a) el (arg_alt a) (arg_az a) =
      (\<lambda>t. \<bar>alt_at (ephem_Moon w) (arg_lon a) (arg_lat a) el t - arg_alt a\<bar> < 2 \<and>
           \<bar>az_at (ephem_Moon w) (arg_lon a) (arg_lat a) el t - arg_az a\<bar> < 2)"
    by (simp add: in_tolerance_def fun_eq_iff)
  have tol3: "in_tolerance 3 (ephem_Sun w) (arg_lon a) (arg_lat a) el (arg_alt a) (arg_az a) =
      (\<lambda>t. \<bar>alt_at (ephem_Sun w) (arg_lon a) (arg_lat a) el t - arg_alt a\<bar> < 3 \<and>
           \<bar>az_at (ephem_Sun w) (arg_lon a) (arg_lat a) el t - arg_az a\<bar> < 3)"
    by (simp add: in_tolerance_def fun_eq_iff)
  have moon: "main w a = Completed [Line no_solution] \<and> exit_status (main w a) = 0"
    if "valid_year (arg_year a)" "arg_moon a"
      "\<forall>t \<in> set (rrule_minutely 15 (mk_datetime (arg_year a) 1 1 0 0 0)
                     (mk_datetime (arg_year a) 12 31 23 59 0)).
         \<not> (\<bar>alt_at (ephem_Moon w) (arg_lon a) (arg_lat a) el t - arg_alt a\<bar> < 2 \<and>
            \<bar>az_at (ephem_Moon w) (arg_lon a) (arg_lat a) el t - arg_az a\<bar> < 2)"
  proof -
    have "get_moon_position w (arg_year a) (arg_lon a) (arg_lat a) el (arg_alt a) (arg_az a) =
        Completed [Line no_solution]"
      using that(1) by (rule get_moon_position_empty) (use that(3) in \<open>simp add: tol2\<close>)
    then show ?thesis using that(2) by (simp add: main_def el_def)
  qed
  have sun: "main w a =
      get_sun_position w (arg_year a) (arg_lon a) (arg_lat a) el (arg_alt a) (arg_az a) (arg_accuracy a)"
    if "\<not> arg_moon a"
    using that by (simp add: main_def el_def)
  have len: "length (results1 w (arg_year a) (arg_lon a) (arg_lat a) el (arg_alt a) (arg_az a) (arg_accuracy a)) =
      length (filter (\<lambda>t. \<bar>alt_at (ephem_Sun w) (arg_lon a) (arg_lat a) el t - arg_alt a\<bar> < 3 \<and>
                          \<bar>az_at (ephem_Sun w) (arg_lon a) (arg_lat a) el t - arg_az a\<bar> < 3)
                (rrule_minutely (arg_accuracy a) (date_start (arg_year a)) (date_solstice w (arg_year a))))"
    by (simp add: results1_eq length_calculate_sun tol3)
  have s1: "main w a = SysExit no_solution \<longleftrightarrow>
      length (filter (\<lambda>t. \<bar>alt_at (ephem_Sun w) (arg_lon a) (arg_lat a) el t - arg_alt a\<bar> < 3 \<and>
                          \<bar>az_at (ephem_Sun w) (arg_lon a) (arg_lat a) el t - arg_az a\<bar> < 3)
                (rrule_minutely (arg_accuracy a) (date_start (arg_year a)) (date_solstice w (arg_year a)))) < 2"
    if "valid_year (arg_year a)" "\<not> arg_moon a"
    unfolding len [symmetric] sun [OF that(2)] get_sun_position_cases using that(1) by simp
  have s2: "\<forall>msg. main w a = SysExit msg \<longrightarrow> msg = no_solution \<and> exit_status (main w a) \<noteq> 0"
    if "valid_year (arg_year a)" "\<not> arg_moon a"
    unfolding sun [OF that(2)] get_sun_position_cases by simp
  show ?thesis
    unfolding el_def [symmetric] using moon s1 s2 no_solution_def by blast
qed

theorem no_solution_exits_witness:
  "valid_year 2024
   \<and> main (example_world (\<lambda>t. (45, 180)) solstice_2024)
        \<lparr>arg_year = 2024, arg_lat = ''7.2332'', arg_lon = ''49.8731'', arg_alt = 90, arg_az = 0,
         arg_moon = True, arg_accuracy = 15\<rparr> = Completed [Line no_solution]
   \<and> exit_status (main (example_world (\<lambda>t. (45, 180)) solstice_2024)
        \<lparr>arg_year = 2024, arg_lat = ''7.2332'', arg_lon = ''49.8731'', arg_alt = 90, arg_az = 0,
         arg_moon = True, arg_accuracy = 15\<rparr>) = 0
   \<and> main (example_world (\<lambda>t. (45, 180)) solstice_2024)
        \<lparr>arg_year = 2024, arg_lat = ''7.2332'', arg_lon = ''49.8731'', arg_alt = 90, arg_az = 0,
         arg_moon = False, arg_accuracy = 15\<rparr> = SysExit no_solution
   \<and> exit_status (main (example_world (\<lambda>t. (45, 180)) solstice_2024)
        \<lparr>arg_year = 2024, arg_lat = ''7.2332'', arg_lon = ''49.8731'', arg_alt = 90, arg_az = 0,
         arg_moon = False, arg_accuracy = 15\<rparr>) \<noteq> 0
   \<and> main (example_world (\<lambda>t. (45, 180)) solstice_2024)
        \<lparr>arg_year = 2024, arg_lat = ''7.2332'', arg_lon = ''49.8731'', arg_alt = 45, arg_az = 180,
         arg_moon = False, arg_accuracy = 15\<rparr> \<noteq> SysExit no_solution"
proof -
  define W where "W = example_world (\<lambda>t. (45::real, 180::real)) solstice_2024"
  define aM where "aM = \<lparr>arg_year = 2024, arg_lat = ''7.2332'', arg_lon = ''49.8731'',
     arg_alt = 90, arg_az = 0, arg_moon = True, arg_accuracy = 15\<rparr>"
  define aS where "aS = \<lparr>arg_year = 2024, arg_lat = ''7.2332'', arg_lon = ''49.8731'',
     arg_alt = 90, arg_az = 0, arg_moon = False, arg_accuracy = 15\<rparr>"
  define aT where "aT = \<lparr>arg_year = 2024, arg_lat = ''7.2332'', arg_lon = ''49.8731'',
     arg_alt = 45, arg_az = 180, arg_moon = False, arg_accuracy = 15\<rparr>"
  have v: "valid_year 2024" by (simp add: valid_year_def)
  have m: "main W aM = Completed [Line no_solution] \<and> exit_status (main W aM) = 0"
    using no_solution_exits [of aM W] v by (simp add: aM_def W_def)
  have s: "main W aS = SysExit no_solution"
    using no_solution_exits [of aS W] v by (simp add: aS_def W_def)
  have s': "exit_status (main W aS) \<noteq> 0"
    using no_solution_exits [of aS W] v s by (simp add: aS_def)
  have "length (rrule_minutely 15 63839750400 63854596800) = 16497"
    by (simp add: length_rrule_minutely ticks_def)
  then have t: "main W aT \<noteq> SysExit no_solution"
    using no_solution_exits [of aT W] v by (simp add: aT_def W_def)
  show ?thesis
    unfolding W_def [symmetric] aM_def [symmetric] aS_def [symmetric] aT_def [symmetric]
    using v m s s' t by (intro conjI) simp_all
qed

text \<open>
  C5. In Sun mode, if at least 2 instants of the first window pass the test and no instant
  of the second window does, \<^verbatim>\<open>get_sun_position\<close> neither prints a table nor reports 'no
  solution': the second result list is empty, \<^verbatim>\<open>results2[0]\<close> raises IndexError, and the
  exception is not caught.
\<close>

theorem sun_second_window_empty_raises:
  assumes "valid_year year"
    and "2 \<le> length (filter (\<lambda>t. \<bar>alt_at (ephem_Sun w) lon lat el t - sa\<bar> < 3 \<and>
                                 \<bar>az_at (ephem_Sun w) lon lat el t - sz\<bar> < 3)
                      (rrule_minutely acc (date_start year) (date_solstice w year)))"
    and "\<forall>t \<in> set (rrule_minutely acc (date_solstice w year) (date_end year)).
           \<not> (\<bar>alt_at (ephem_Sun w) lon lat el t - sa\<bar> < 3 \<and>
              \<bar>az_at (ephem_Sun w) lon lat el t - sz\<bar> < 3)"
  shows "2 \<le> length (results1 w year lon lat el sa sz acc)
       \<and> results2 w year lon lat el sa sz acc = []
       \<and> get_sun_position w year lon lat el sa sz acc = Raised IndexError
       \<and> exit_status (get_sun_position w year lon lat el sa sz acc) \<noteq> 0"
proof -
  have tol3: "in_tolerance 3 (ephem_Sun w) lon lat el sa sz =
      (\<lambda>t. \<bar>alt_at (ephem_Sun w) lon lat el t - sa\<bar> < 3 \<and> \<bar>az_at (ephem_Sun w) lon lat el t - sz\<bar> < 3)"
    by (simp add: in_tolerance_def fun_eq_iff)
  have r1: "2 \<le> length (results1 w year lon lat el sa sz acc)"
    using assms(2) by (simp add: results1_eq length_calculate_sun tol3)
  have r2: "results2 w year lon lat el sa sz acc = []"
    using assms(3) by (simp add: results2_eq calculate_sun_Nil_iff tol3)
  have g: "get_sun_position w year lon lat el sa sz acc = Raised IndexError"
    using assms(1) r1 r2 by (rule get_sun_position_index)
  show ?thesis using r1 r2 g by simp
qed

theorem sun_second_window_empty_raises_witness:
  "valid_year 2024
   \<and> 2 \<le> length (filter (\<lambda>t. \<bar>alt_at (ephem_Sun (example_world
                (\<lambda>t. if t < 63854596800 then (45, 180) else (0, 0)) solstice_2024))
                ''49.8731'' ''7.2332'' 0 t - 45\<bar> < 3 \<and>
              \<bar>az_at (ephem_Sun (example_world
                (\<lambda>t. if t < 63854596800 then (45, 180) else (0, 0)) solstice_2024))
                ''49.8731'' ''7.2332'' 0 t - 180\<bar> < 3)
          (rrule_minutely 15 (date_start 2024)
             (date_solstice (example_world
                (\<lambda>t. if t < 63854596800 then (45, 180) else (0, 0)) solstice_2024) 2024)))
   \<and> get_sun_position (example_world
        (\<lambda>t. if t < 63854596800 then (45, 180) else (0, 0)) solstice_2024)
        2024 ''49.8731'' ''7.2332'' 0 45 180 15 = Raised IndexError"
proof -
  define W where "W = example_world
        (\<lambda>t. if t < 63854596800 then (45::real, 180::real) else (0, 0)) solstice_2024"
  have v: "valid_year 2024" by (simp add: valid_year_def)
  have ds: "date_solstice W 2024 = 63854596800" by (simp add: W_def)
  have u: "rrule_minutely 15 63839750400 63854596800 =
      63839750400 # 63839751300 # rrule_minutely 15 63839752200 63854596800"
    using rrule_minutely_Cons [of 15 63839750400 63854596800]
      rrule_minutely_Cons [of 15 63839751300 63854596800] by simp
  have a: "2 \<le> length (filter (\<lambda>t. \<bar>alt_at (ephem_Sun W) ''49.8731'' ''7.2332'' 0 t - 45\<bar> < 3 \<and>
              \<bar>az_at (ephem_Sun W) ''49.8731'' ''7.2332'' 0 t - 180\<bar> < 3)
          (rrule_minutely 15 (date_start 2024) (date_solstice W 2024)))"
    unfolding ds by (simp add: u W_def)
  have b: "\<forall>t \<in> set (rrule_minutely 15 (date_solstice W 2024) (date_end 2024)).
           \<not> (\<bar>alt_at (ephem_Sun W) ''49.8731'' ''7.2332'' 0 t - 45\<bar> < 3 \<and>
              \<bar>az_at (ephem_Sun W) ''49.8731'' ''7.2332'' 0 t - 180\<bar> < 3)"
    unfolding ds by (simp add: mem_rrule_minutely W_def)
  note r = sun_second_window_empty_raises [OF v a b]
  show ?thesis unfolding W_def [symmetric] using v a r by (intro conjI) simp_all
qed

text \<open>
  C1. For every window searched by \<^verbatim>\<open>calculate_sun\<close> (called with an empty list, as
  \<^verbatim>\<open>get_sun_position\<close> does) that has an accepted instant, the first entry of the returned
  list belongs to an accepted instant of the window whose score
  \<open>\<bar>altitude - target altitude\<bar> * \<bar>azimuth - target azimuth\<bar>\<close>, computed from the unrounded
  answers of the ephemeris, is the least among the accepted instants, and among the accepted
  instants with that score it is the earliest. When \<^verbatim>\<open>get_sun_position\<close> prints a table, its
  two rows are made from these first entries of the two windows.
\<close>

theorem sun_best_match:
  "(calculate_sun w [] lon lat el sa sz s e acc \<noteq> [] \<longrightarrow>
      (\<exists>t \<in> set (rrule_minutely acc s e).
         in_tolerance 3 (ephem_Sun w) lon lat el sa sz t \<and>
         hd (calculate_sun w [] lon lat el sa sz s e acc) =
           (py_round (alt_at (ephem_Sun w) lon lat el t) 2,
            py_round (az_at (ephem_Sun w) lon lat el t) 2, t,
            \<bar>alt_at (ephem_Sun w) lon lat el t - sa\<bar> * \<bar>az_at (ephem_Sun w) lon lat el t - sz\<bar>) \<and>
         (\<forall>t' \<in> set (rrule_minutely acc s e).
            in_tolerance 3 (ephem_Sun w) lon lat el sa sz t' \<longrightarrow>
              \<bar>alt_at (ephem_Sun w) lon lat el t - sa\<bar> * \<bar>az_at (ephem_Sun w) lon lat el t - sz\<bar>
                \<le> \<bar>alt_at (ephem_Sun w) lon lat el t' - sa\<bar> * \<bar>az_at (ephem_Sun w) lon lat el t' - sz\<bar> \<and>
              (\<bar>alt_at (ephem_Sun w) lon lat el t' - sa\<bar> * \<bar>az_at (ephem_Sun w) lon lat el t' - sz\<bar>
                 = \<bar>alt_at (ephem_Sun w) lon lat el t - sa\<bar> * \<bar>az_at (ephem_Sun w) lon lat el t - sz\<bar>
               \<longrightarrow> t \<le> t'))))
   \<and> (\<forall>out. get_sun_position w year lon lat el sa sz acc = Completed out \<longrightarrow>
        calculate_sun w [] lon lat el sa sz (date_start year) (date_solstice w year) acc \<noteq> [] \<and>
        calculate_sun w [] lon lat el sa sz (date_solstice w year) (date_end year) acc \<noteq> [] \<and>
        out =
          [Line ''\<newline>On the following dates and times the sun is closest to the given parameters:\<newline>'',
           Table [''Date and time'', ''Altitude'', ''Azimuth'']
             [sun_row (get_timezone w lon lat)
                (hd (calculate_sun w [] lon lat el sa sz (date_start year) (date_solstice w year) acc)),
              sun_row (get_timezone w lon lat)
                (hd (calculate_sun w [] lon lat el sa sz (date_solstice w year) (date_end year) acc))]])"
proof (intro conjI impI allI)
  assume "calculate_sun w [] lon lat el sa sz s e acc \<noteq> []"
  then show "\<exists>t \<in> set (rrule_minutely acc s e).
         in_tolerance 3 (ephem_Sun w) lon lat el sa sz t \<and>
         hd (calculate_sun w [] lon lat el sa sz s e acc) =
           (py_round (alt_at (ephem_Sun w) lon lat el t) 2,
            py_round (az_at (ephem_Sun w) lon lat el t) 2, t,
            \<bar>alt_at (ephem_Sun w) lon lat el t - sa\<bar> * \<bar>az_at (ephem_Sun w) lon lat el t - sz\<bar>) \<and>
         (\<forall>t' \<in> set (rrule_minutely acc s e).
            in_tolerance 3 (ephem_Sun w) lon lat el sa sz t' \<longrightarrow>
              \<bar>alt_at (ephem_Sun w) lon lat el t - sa\<bar> * \<bar>az_at (ephem_Sun w) lon lat el t - sz\<bar>
                \<le> \<bar>alt_at (ephem_Sun w) lon lat el t' - sa\<bar> * \<bar>az_at (ephem_Sun w) lon lat el t' - sz\<bar> \<and>
              (\<bar>alt_at (ephem_Sun w) lon lat el t' - sa\<bar> * \<bar>az_at (ephem_Sun w) lon lat el t' - sz\<bar>
                 = \<bar>alt_at (ephem_Sun w) lon lat el t - sa\<bar> * \<bar>az_at (ephem_Sun w) lon lat el t - sz\<bar>
               \<longrightarrow> t \<le> t'))"
    using hd_calculate_sun [of w lon lat el sa sz s e acc]
    by (simp add: sun_entry_def closeby_at_def)
next
  fix out
  assume c: "get_sun_position w year lon lat el sa sz acc = Completed out"
  have r1: "\<not> length (results1 w year lon lat el sa sz acc) < 2"
    and r2: "results2 w year lon lat el sa sz acc \<noteq> []"
    and o: "out =
          [Line ''\<newline>On the following dates and times the sun is closest to the given parameters:\<newline>'',
           Table [''Date and time'', ''Altitude'', ''Azimuth'']
             [sun_row (get_timezone w lon lat) (hd (results1 w year lon lat el sa sz acc)),
              sun_row (get_timezone w lon lat) (hd (results2 w year lon lat el sa sz acc))]]"
    using c unfolding get_sun_position_cases by (simp_all split: if_splits)
  from r1 show "calculate_sun w [] lon lat el sa sz (date_start year) (date_solstice w year) acc \<noteq> []"
    unfolding results1_eq by auto
  from r2 show "calculate_sun w [] lon lat el sa sz (date_solstice w year) (date_end year) acc \<noteq> []"
    unfolding results2_eq .
  from o show "out =
          [Line ''\<newline>On the following dates and times the sun is closest to the given parameters:\<newline>'',
           Table [''Date and time'', ''Altitude'', ''Azimuth'']
             [sun_row (get_timezone w lon lat)
                (hd (calculate_sun w [] lon lat el sa sz (date_start year) (date_solstice w year) acc)),
              sun_row (get_timezone w lon lat)
                (hd (calculate_sun w [] lon lat el sa sz (date_solstice w year) (date_end year) acc))]]"
    unfolding results1_eq results2_eq .
qed

theorem sun_best_match_witness:
  "calculate_sun (example_world
       (\<lambda>t. if t = 63839750400 then (46, 181) else if t = 63839753100 then (49, 180) else (91 / 2, 181))
       solstice_2024) [] ''49.8731'' ''7.2332'' 0 45 180 63839750400 63839753100 15 \<noteq> []
   \<and> hd (calculate_sun (example_world
       (\<lambda>t. if t = 63839750400 then (46, 181) else if t = 63839753100 then (49, 180) else (91 / 2, 181))
       solstice_2024) [] ''49.8731'' ''7.2332'' 0 45 180 63839750400 63839753100 15)
       = (91 / 2, 181, 63839751300, 1 / 2)
   \<and> get_sun_position (example_world (\<lambda>t. (45, 180)) solstice_2024)
        2024 ''49.8731'' ''7.2332'' 0 45 180 15 =
       Completed
         [Line ''\<newline>On the following dates and times the sun is closest to the given parameters:\<newline>'',
          Table [''Date and time'', ''Altitude'', ''Azimuth'']
            [[Moment 63839750400 ''Europe/Amsterdam'', Number 45, Number 180],
             [Moment 63854596800 ''Europe/Amsterdam'', Number 45, Number 180]]]"
proof -
  define W where "W = example_world
       (\<lambda>t. if t = 63839750400 then (46::real, 181::real) else if t = 63839753100 then (49, 180)
            else (91 / 2, 181)) solstice_2024"
  define V where "V = example_world (\<lambda>t. (45::real, 180::real)) solstice_2024"
  have grid: "rrule_minutely 15 63839750400 63839753100 =
      [63839750400, 63839751300, 63839752200, 63839753100]"
    using rrule_minutely_Cons [of 15 63839750400 63839753100]
      rrule_minutely_Cons [of 15 63839751300 63839753100]
      rrule_minutely_Cons [of 15 63839752200 63839753100]
      rrule_minutely_Cons [of 15 63839753100 63839753100]
      rrule_minutely_Nil [of 63839753100 63839754000 15]
    by simp
  have ne: "calculate_sun W [] ''49.8731'' ''7.2332'' 0 45 180 63839750400 63839753100 15 \<noteq> []"
    by (simp add: calculate_sun_Nil_iff grid in_tolerance_def W_def)
  have rnd: "py_round (91 / 2) 2 = 91 / 2" "py_round 181 2 = 181"
    "py_round 45 2 = 45" "py_round 180 2 = 180"
    by (simp_all add: py_round_def)
  have h: "hd (calculate_sun W [] ''49.8731'' ''7.2332'' 0 45 180 63839750400 63839753100 15)
       = (91 / 2, 181, 63839751300, 1 / 2)"
    using sun_best_match [of W "''49.8731''" "''7.2332''" 0 45 180 63839750400 63839753100 15 2024] ne
    unfolding grid by (auto simp: in_tolerance_def W_def rnd split: if_splits)
  have v: "valid_year 2024" by (simp add: valid_year_def)
  have la: "length (rrule_minutely 15 63839750400 63854596800) = 16497"
    by (simp add: length_rrule_minutely ticks_def)
  have r1: "2 \<le> length (results1 V 2024 ''49.8731'' ''7.2332'' 0 45 180 15)"
    by (simp add: results1_eq length_calculate_sun in_tolerance_def V_def la)
  have sa: "63839750400 \<in> set (rrule_minutely 15 63839750400 63854596800)"
    and sb: "63854596800 \<in> set (rrule_minutely 15 63854596800 63871372740)"
    by (simp_all add: mem_rrule_minutely)
  have r2: "results2 V 2024 ''49.8731'' ''7.2332'' 0 45 180 15 \<noteq> []"
    using sb by (auto simp: results2_eq calculate_sun_Nil_iff in_tolerance_def V_def)
  note c = get_sun_position_completed [OF v r1 r2]
  note m = sun_best_match [of V "''49.8731''" "''7.2332''" 0 45 180 _ _ 15 2024]
  have ds: "date_start 2024 = 63839750400" "date_end 2024 = 63871372740"
    "date_solstice V 2024 = 63854596800"
    by (simp_all add: V_def)
  have nA: "calculate_sun V [] ''49.8731'' ''7.2332'' 0 45 180 63839750400 63854596800 15 \<noteq> []"
    and nB: "calculate_sun V [] ''49.8731'' ''7.2332'' 0 45 180 63854596800 63871372740 15 \<noteq> []"
    using m [of 63839750400 63854596800] c unfolding ds by blast+
  have hA: "hd (calculate_sun V [] ''49.8731'' ''7.2332'' 0 45 180 63839750400 63854596800 15)
      = (45, 180, 63839750400, 0)"
  proof -
    obtain t where t: "t \<in> set (rrule_minutely 15 63839750400 63854596800)"
      "hd (calculate_sun V [] ''49.8731'' ''7.2332'' 0 45 180 63839750400 63854596800 15) =
         (45, 180, t, 0)"
      "\<forall>t' \<in> set (rrule_minutely 15 63839750400 63854596800). t \<le> t'"
      using m [of 63839750400 63854596800] nA
      by (auto simp: in_tolerance_def V_def rnd)
    have "t \<le> 63839750400" using t(3) sa by blast
    moreover have "63839750400 \<le> t" using t(1) by (simp add: mem_rrule_minutely)
    ultimately show ?thesis using t(2) by simp
  qed
  have hB: "hd (calculate_sun V [] ''49.8731'' ''7.2332'' 0 45 180 63854596800 63871372740 15)
      = (45, 180, 63854596800, 0)"
  proof -
    obtain t where t: "t \<in> set (rrule_minutely 15 63854596800 63871372740)"
      "hd (calculate_sun V [] ''49.8731'' ''7.2332'' 0 45 180 63854596800 63871372740 15) =
         (45, 180, t, 0)"
      "\<forall>t' \<in> set (rrule_minutely 15 63854596800 63871372740). t \<le> t'"
      using m [of 63854596800 63871372740] nB
      by (auto simp: in_tolerance_def V_def rnd)
    have "t \<le> 63854596800" using t(3) sb by blast
    moreover have "63854596800 \<le> t" using t(1) by (simp add: mem_rrule_minutely)
    ultimately show ?thesis using t(2) by simp
  qed
  have tz: "get_timezone V ''49.8731'' ''7.2332'' = ''Europe/Amsterdam''" by (simp add: V_def)
  have g: "get_sun_position V 2024 ''49.8731'' ''7.2332'' 0 45 180 15 =
       Completed
         [Line ''\<newline>On the following dates and times the sun is closest to the given parameters:\<newline>'',
          Table [''Date and time'', ''Altitude'', ''Azimuth'']
            [[Moment 63839750400 ''Europe/Amsterdam'', Number 45, Number 180],
             [Moment 63854596800 ''Europe/Amsterdam'', Number 45, Number 180]]]"
    using m [of 63839750400 63854596800] c
    unfolding ds tz results1_eq results2_eq hA hB
    by (simp add: sun_row_def instant_of_def)
  show ?thesis
    unfolding W_def [symmetric] V_def [symmetric] using ne h g by (intro conjI)
qed

text \<open>
  C10. For a year whose solstice lies within the year and for the steps 15 and 2, the
  hour-truncated solstice is an instant of the grid that starts at 1 January 00:00, so it is
  sampled in the first window (as its last instant) and in the second (as its first). If it
  passes the test it is a candidate of both windows, and it can be reported twice: when it is
  strictly better than every other candidate of the first window and no worse than any of the
  second (and the first window has at least 2 candidates), both rows of the table show it.
\<close>

theorem solstice_sampled_twice:
  assumes "date_start year \<le> ephem_next_solstice w (date_start year)"
    and "ephem_next_solstice w (date_start year) \<le> date_end year"
    and "acc = 15 \<or> acc = 2"
  shows "date_solstice w year \<in> set (rrule_minutely acc (date_start year) (date_solstice w year))
       \<and> date_solstice w year \<in> set (rrule_minutely acc (date_solstice w year) (date_end year))
       \<and> (in_tolerance 3 (ephem_Sun w) lon lat el sa sz (date_solstice w year) \<longrightarrow>
            date_solstice w year \<in> set (map instant_of (results1 w year lon lat el sa sz acc)) \<and>
            date_solstice w year \<in> set (map instant_of (results2 w year lon lat el sa sz acc)))
       \<and> (valid_year year \<and>
          in_tolerance 3 (ephem_Sun w) lon lat el sa sz (date_solstice w year) \<and>
          2 \<le> length (results1 w year lon lat el sa sz acc) \<and>
          (\<forall>t \<in> set (rrule_minutely acc (date_start year) (date_solstice w year)).
             t \<noteq> date_solstice w year \<and> in_tolerance 3 (ephem_Sun w) lon lat el sa sz t \<longrightarrow>
               closeby_at (ephem_Sun w) lon lat el sa sz (date_solstice w year)
                 < closeby_at (ephem_Sun w) lon lat el sa sz t) \<and>
          (\<forall>t \<in> set (rrule_minutely acc (date_solstice w year) (date_end year)).
             in_tolerance 3 (ephem_Sun w) lon lat el sa sz t \<longrightarrow>
               closeby_at (ephem_Sun w) lon lat el sa sz (date_solstice w year)
                 \<le> closeby_at (ephem_Sun w) lon lat el sa sz t)
          \<longrightarrow> get_sun_position w year lon lat el sa sz acc =
                Completed
                  [Line ''\<newline>On the following dates and times the sun is closest to the given parameters:\<newline>'',
                   Table [''Date and time'', ''Altitude'', ''Azimuth'']
                     [sun_row (get_timezone w lon lat)
                        (sun_entry (ephem_Sun w) lon lat el sa sz (date_solstice w year)),
                      sun_row (get_timezone w lon lat)
                        (sun_entry (ephem_Sun w) lon lat el sa sz (date_solstice w year))]])"
proof -
  define sol where "sol = date_solstice w year"
  note b = date_solstice_bounds [OF assms(1,2), folded sol_def]
  have pos: "0 < acc" using assms(3) by auto
  have inA: "sol \<in> set (rrule_minutely acc (date_start year) sol)"
    using b(1) hour_on_grid [OF date_start_hour b(3) assms(3)]
    by (simp add: mem_rrule_minutely [OF pos])
  have inB: "sol \<in> set (rrule_minutely acc sol (date_end year))"
    using b(2) by (simp add: mem_rrule_minutely [OF pos])
  have cand: "sol \<in> set (map instant_of (results1 w year lon lat el sa sz acc)) \<and>
              sol \<in> set (map instant_of (results2 w year lon lat el sa sz acc))"
    if "in_tolerance 3 (ephem_Sun w) lon lat el sa sz sol"
    using that inA inB
    unfolding results1_eq results2_eq set_instants_calculate_sun sol_def by simp
  have twice: "get_sun_position w year lon lat el sa sz acc =
                Completed
                  [Line ''\<newline>On the following dates and times the sun is closest to the given parameters:\<newline>'',
                   Table [''Date and time'', ''Altitude'', ''Azimuth'']
                     [sun_row (get_timezone w lon lat) (sun_entry (ephem_Sun w) lon lat el sa sz sol),
                      sun_row (get_timezone w lon lat) (sun_entry (ephem_Sun w) lon lat el sa sz sol)]]"
    if v: "valid_year year"
      and acc: "in_tolerance 3 (ephem_Sun w) lon lat el sa sz sol"
      and two: "2 \<le> length (results1 w year lon lat el sa sz acc)"
      and lessA: "\<forall>t \<in> set (rrule_minutely acc (date_start year) sol).
             t \<noteq> sol \<and> in_tolerance 3 (ephem_Sun w) lon lat el sa sz t \<longrightarrow>
               closeby_at (ephem_Sun w) lon lat el sa sz sol < closeby_at (ephem_Sun w) lon lat el sa sz t"
      and leB: "\<forall>t \<in> set (rrule_minutely acc sol (date_end year)).
             in_tolerance 3 (ephem_Sun w) lon lat el sa sz t \<longrightarrow>
               closeby_at (ephem_Sun w) lon lat el sa sz sol \<le> closeby_at (ephem_Sun w) lon lat el sa sz t"
  proof -
    have leA: "\<forall>t \<in> set (rrule_minutely acc (date_start year) sol).
             in_tolerance 3 (ephem_Sun w) lon lat el sa sz t \<longrightarrow>
               closeby_at (ephem_Sun w) lon lat el sa sz sol \<le> closeby_at (ephem_Sun w) lon lat el sa sz t"
      using lessA by (auto simp: less_imp_le) 
    have hA: "hd (results1 w year lon lat el sa sz acc) = sun_entry (ephem_Sun w) lon lat el sa sz sol"
      unfolding results1_eq sol_def [symmetric]
      using inA acc _ leA by (rule hd_calculate_sun_unique) (use lessA in auto)
    have noB: "\<forall>t \<in> set (rrule_minutely acc sol (date_end year)).
        t < sol \<and> in_tolerance 3 (ephem_Sun w) lon lat el sa sz t \<longrightarrow>
          closeby_at (ephem_Sun w) lon lat el sa sz sol < closeby_at (ephem_Sun w) lon lat el sa sz t"
      by (auto simp: mem_rrule_minutely [OF pos])
    have hB: "hd (results2 w year lon lat el sa sz acc) = sun_entry (ephem_Sun w) lon lat el sa sz sol"
      unfolding results2_eq sol_def [symmetric]
      using inB acc noB leB by (rule hd_calculate_sun_unique)
    have r2: "results2 w year lon lat el sa sz acc \<noteq> []"
      unfolding results2_eq sol_def [symmetric] using inB acc by (auto simp: calculate_sun_Nil_iff)
    show ?thesis
      using get_sun_position_completed [OF v two r2] unfolding hA hB .
  qed
  show ?thesis
    unfolding sol_def [symmetric] using inA inB cand twice by blast
qed

theorem solstice_sampled_twice_witness:
  "date_start 2024 \<le> ephem_next_solstice (example_world
        (\<lambda>t. if t = 63854596800 then (45, 180) else (46, 181)) solstice_2024) (date_start 2024)
   \<and> ephem_next_solstice (example_world
        (\<lambda>t. if t = 63854596800 then (45, 180) else (46, 181)) solstice_2024) (date_start 2024)
        \<le> date_end 2024
   \<and> 63854596800 \<in> set (rrule_minutely 15 63839750400 63854596800)
   \<and> 63854596800 \<in> set (rrule_minutely 2 63839750400 63854596800)
   \<and> 63854596800 \<in> set (rrule_minutely 2 63854596800 63871372740)
   \<and> get_sun_position (example_world
        (\<lambda>t. if t = 63854596800 then (45, 180) else (46, 181)) solstice_2024)
        2024 ''49.8731'' ''7.2332'' 0 45 180 15 =
       Completed
         [Line ''\<newline>On the following dates and times the sun is closest to the given parameters:\<newline>'',
          Table [''Date and time'', ''Altitude'', ''Azimuth'']
            [[Moment 63854596800 ''Europe/Amsterdam'', Number 45, Number 180],
             [Moment 63854596800 ''Europe/Amsterdam'', Number 45, Number 180]]]"
proof -
  define W where "W = example_world
        (\<lambda>t. if t = 63854596800 then (45::real, 180::real) else (46, 181)) solstice_2024"
  have h1: "date_start 2024 \<le> ephem_next_solstice W (date_start 2024)"
    and h2: "ephem_next_solstice W (date_start 2024) \<le> date_end 2024"
    by (simp_all add: W_def solstice_2024_eq)
  have ds: "date_start 2024 = 63839750400" "date_end 2024 = 63871372740"
    "date_solstice W 2024 = 63854596800"
    by (simp_all add: W_def)
  note p15 = solstice_sampled_twice [OF h1 h2, of 15 "''49.8731''" "''7.2332''" 0 45 180, unfolded ds]
  note p2 = solstice_sampled_twice [OF h1 h2, of 2 "''49.8731''" "''7.2332''" 0 45 180, unfolded ds]
  have v: "valid_year 2024" by (simp add: valid_year_def)
  have tol: "in_tolerance 3 (ephem_Sun W) ''49.8731'' ''7.2332'' 0 45 180 t" for t
    by (simp add: in_tolerance_def W_def)
  have la: "length (rrule_minutely 15 63839750400 63854596800) = 16497"
    by (simp add: length_rrule_minutely ticks_def)
  have two: "2 \<le> length (results1 W 2024 ''49.8731'' ''7.2332'' 0 45 180 15)"
    unfolding results1_eq ds length_calculate_sun using tol by (simp add: la)
  have cb: "closeby_at (ephem_Sun W) ''49.8731'' ''7.2332'' 0 45 180 t =
      (if t = 63854596800 then 0 else 1)" for t
    by (simp add: closeby_at_def W_def)
  have rnd: "py_round 45 2 = 45" "py_round 180 2 = 180"
    by (simp_all add: py_round_def)
  have tz: "get_timezone W ''49.8731'' ''7.2332'' = ''Europe/Amsterdam''" by (simp add: W_def)
  have row: "sun_row ''Europe/Amsterdam''
      (sun_entry (ephem_Sun W) ''49.8731'' ''7.2332'' 0 45 180 63854596800) =
      [Moment 63854596800 ''Europe/Amsterdam'', Number 45, Number 180]"
    by (simp add: sun_row_def sun_entry_def instant_of_def W_def rnd)
  have g: "get_sun_position W 2024 ''49.8731'' ''7.2332'' 0 45 180 15 =
       Completed
         [Line ''\<newline>On the following dates and times the sun is closest to the given parameters:\<newline>'',
          Table [''Date and time'', ''Altitude'', ''Azimuth'']
            [[Moment 63854596800 ''Europe/Amsterdam'', Number 45, Number 180],
             [Moment 63854596800 ''Europe/Amsterdam'', Number 45, Number 180]]]"
    using p15 v two unfolding tz by (simp add: tol cb row)
  show ?thesis
    unfolding W_def [symmetric] using h1 h2 p15 p2 g by (intro conjI) blast+
qed

end
